theory Spec2Isabelle
  imports Complex_Main "HOL-Library.Char_ord" "HOL-Library.List_Lexorder"
begin

section \<open>Conversion of legacy style functions to expressions\<close>

text \<open>
  A shallow embedding of \<^verbatim>\<open>src/mbgl/style/conversion/function.cpp\<close>: the classifier, the
  literal converter, the stop collection parsers, the base parameter parser, the expression
  builders, and the converters of camera, categorical and composite functions, each as a HOL
  function of the same name. The \<^verbatim>\<open>Error&\<close> sink of the source is written exactly when a
  function returns nothing, so a call is modelled by its outcome: a value, a failure with
  the message left in the sink, or a failed \<^verbatim>\<open>assert\<close>.
\<close>

subsection \<open>Outcomes\<close>

text \<open>
  \<open>Error msg\<close> is a message this file writes into the sink. \<open>ConverterError T\<close> is the
  message written by the library's \<^verbatim>\<open>Converter<T>\<close>, whose text is not part of this file.
\<close>

datatype error = Error string | ConverterError string

text \<open>
  \<open>Ok x\<close>: the call returns \<open>x\<close> and leaves the sink alone. \<open>Failed e\<close>: the call returns
  the empty optional with \<open>e\<close> in the sink. \<open>AssertionFailure\<close>: the call reaches
  \<^verbatim>\<open>assert(false)\<close> (or an \<^verbatim>\<open>assert\<close> whose condition is false); neither a value
  nor a message is produced.
\<close>

datatype 'a result = Ok 'a | Failed error | AssertionFailure

subsection \<open>Configuration values\<close>

text \<open>
  The type-erased \<^verbatim>\<open>Convertible\<close> is read through its accessors only. A number carries
  the \<^verbatim>\<open>float\<close> that \<^verbatim>\<open>toNumber\<close> returns; the type \<open>'n\<close> of these floats is a
  parameter. The source widens \<^verbatim>\<open>float\<close> to \<^verbatim>\<open>double\<close>, which changes neither the
  value nor the order, so \<open>'n\<close> stands for both. The order of \<open>'n\<close> is the one
  \<^verbatim>\<open>std::map\<close> compares keys with (a NaN, which has no place in it, is not a value of
  \<open>'n\<close>).

  Which scalars coerce to a boolean, a number or a string is up to the backend behind the
  \<^verbatim>\<open>Convertible\<close>, and the spec provides for input on which more than one coercion
  succeeds (the first that succeeds wins). Besides the null value, the booleans, the
  numbers and the strings, which coerce to themselves only, there is therefore the scalar
  \<open>CScalar b n s\<close>, given by the results \<open>b\<close>, \<open>n\<close> and \<open>s\<close> of its three coercions.
\<close>

datatype 'n convertible =
    CNull
  | CBool bool
  | CNumber 'n
  | CString string
  | CScalar "bool option" "'n option" "string option"
  | CArray "'n convertible list"
  | CObject "(string \<times> 'n convertible) list"

text \<open>Modelled from the spec: the accessors of \<^verbatim>\<open>Convertible\<close> (object and array
  inspection, scalar coercion), which are declared outside this file.\<close>

fun isObject :: "'n convertible \<Rightarrow> bool" where
  "isObject (CObject ms) = True"
| "isObject v = False"

fun isArray :: "'n convertible \<Rightarrow> bool" where
  "isArray (CArray xs) = True"
| "isArray v = False"

text \<open>Modelled from the spec: called on arrays only; the length of anything else is 0.\<close>

fun arrayLength :: "'n convertible \<Rightarrow> nat" where
  "arrayLength (CArray xs) = length xs"
| "arrayLength v = 0"

text \<open>Modelled from the spec: called with an index below \<open>arrayLength\<close> only; any other
  read yields the null value.\<close>

fun arrayMember :: "'n convertible \<Rightarrow> nat \<Rightarrow> 'n convertible" where
  "arrayMember (CArray xs) i = (if i < length xs then xs ! i else CNull)"
| "arrayMember v i = CNull"

text \<open>Modelled from the spec: the first member of that name; called on objects only, anything
  else has no members.\<close>

fun objectMember :: "'n convertible \<Rightarrow> string \<Rightarrow> 'n convertible option" where
  "objectMember (CObject ms) name = map_of ms name"
| "objectMember v name = None"

fun toBool :: "'n convertible \<Rightarrow> bool option" where
  "toBool (CBool b) = Some b"
| "toBool (CScalar b n s) = b"
| "toBool v = None"

fun toNumber :: "'n convertible \<Rightarrow> 'n option" where
  "toNumber (CNumber n) = Some n"
| "toNumber (CScalar b n s) = n"
| "toNumber v = None"

fun toString :: "'n convertible \<Rightarrow> string option" where
  "toString (CString s) = Some s"
| "toString (CScalar b n s) = s"
| "toString v = None"

text \<open>
  What the file uses and cannot define: the implicit conversion of a \<^verbatim>\<open>float\<close> to
  \<^verbatim>\<open>int64_t\<close> (keys of type \<^verbatim>\<open>int64_t\<close> are compared and never computed with, so
  they are integers here), and the parser of colour strings behind \<^verbatim>\<open>Converter<Color>\<close>.
\<close>

record ('n, 'c) externals =
  toInt64 :: "'n \<Rightarrow> int"
  parseColor :: "string \<Rightarrow> 'c option"

text \<open>Modelled from the spec: \<^verbatim>\<open>convert<float>\<close>, \<^verbatim>\<open>convert<bool>\<close>,
  \<^verbatim>\<open>convert<std::string>\<close> and \<^verbatim>\<open>convert<Color>\<close> coerce through the accessor and report
  a failed coercion in the sink.\<close>

definition convert_float :: "'n convertible \<Rightarrow> 'n result" where
  "convert_float v = (case toNumber v of None \<Rightarrow> Failed (ConverterError ''float'') | Some n \<Rightarrow> Ok n)"

definition convert_bool :: "'n convertible \<Rightarrow> bool result" where
  "convert_bool v = (case toBool v of None \<Rightarrow> Failed (ConverterError ''bool'') | Some b \<Rightarrow> Ok b)"

definition convert_string :: "'n convertible \<Rightarrow> string result" where
  "convert_string v =
     (case toString v of None \<Rightarrow> Failed (ConverterError ''std::string'') | Some s \<Rightarrow> Ok s)"

definition convert_Color :: "('n, 'c) externals \<Rightarrow> 'n convertible \<Rightarrow> 'c result" where
  "convert_Color X v =
     (case toString v of
        None \<Rightarrow> Failed (ConverterError ''Color'')
      | Some s \<Rightarrow>
          (case parseColor X s of None \<Rightarrow> Failed (ConverterError ''Color'') | Some c \<Rightarrow> Ok c))"

text \<open>The ad-hoc converters at the head of the file.\<close>

definition convert_double :: "'n convertible \<Rightarrow> 'n result" where
  "convert_double v =
     (case convert_float v of
        Ok converted \<Rightarrow> Ok converted
      | Failed e \<Rightarrow> Failed e
      | AssertionFailure \<Rightarrow> AssertionFailure)"

definition convert_int64 :: "('n, 'c) externals \<Rightarrow> 'n convertible \<Rightarrow> int result" where
  "convert_int64 X v =
     (case convert_float v of
        Ok converted \<Rightarrow> Ok (toInt64 X converted)
      | Failed e \<Rightarrow> Failed e
      | AssertionFailure \<Rightarrow> AssertionFailure)"

subsection \<open>Types, values and expressions\<close>

text \<open>Modelled from the spec: the closed variant \<^verbatim>\<open>type::Type\<close>, with the alternatives the
  source matches on. The length of an array type is optional.\<close>

datatype type =
    NullType
  | NumberType
  | BooleanType
  | StringType
  | ColorType
  | ObjectType
  | ValueType
  | Array type "nat option"
  | CollatorType
  | ErrorType

datatype ('n, 'c) val =
    VNumber 'n
  | VBool bool
  | VString string
  | VColor 'c
  | VArray "('n, 'c) val list"

datatype 'n interpolator = ExponentialInterpolator 'n | LinearInterpolator

text \<open>Modelled from the spec: the expression nodes, built through their constructors and never
  evaluated here. A \<^verbatim>\<open>std::map\<close> of stops is the list of its entries in ascending key order;
  the \<^verbatim>\<open>std::unordered_map\<close> of a match is the list of its entries, whose keys are
  distinct.\<close>

datatype ('n, 'c) expression =
    Literal "('n, 'c) val"
  | Get "('n, 'c) expression"
  | Zoom
  | ErrorExpression string
  | NumberAssertion "('n, 'c) expression"
  | Step type "('n, 'c) expression" "('n \<times> ('n, 'c) expression) list"
  | Interpolate type "'n interpolator" "('n, 'c) expression" "('n \<times> ('n, 'c) expression) list"
  | MatchInt64 type "('n, 'c) expression" "(int \<times> ('n, 'c) expression) list" "('n, 'c) expression"
  | MatchString type "('n, 'c) expression" "(string \<times> ('n, 'c) expression) list"
      "('n, 'c) expression"
  | Case type "(('n, 'c) expression \<times> ('n, 'c) expression) list" "('n, 'c) expression"

text \<open>Modelled from the spec: the constructors of \<^verbatim>\<open>expression::dsl\<close>.\<close>

definition literal :: "('n, 'c) val \<Rightarrow> ('n, 'c) expression" where
  "literal v = Literal v"

definition get :: "('n, 'c) expression \<Rightarrow> ('n, 'c) expression" where
  "get e = Get e"

definition zoom :: "('n, 'c) expression" where
  "zoom = Zoom"

definition number :: "('n, 'c) expression \<Rightarrow> ('n, 'c) expression" where
  "number e = NumberAssertion e"

definition error :: "string \<Rightarrow> ('n, 'c) expression" where
  "error msg = ErrorExpression msg"

definition exponential :: "'n \<Rightarrow> 'n interpolator" where
  "exponential base = ExponentialInterpolator base"

definition linear :: "'n interpolator" where
  "linear = LinearInterpolator"

subsection \<open>Ordered maps\<close>

text \<open>
  \<^verbatim>\<open>std::map::emplace\<close>: the entry goes to its place in the key order, unless the map
  already has an entry whose key is neither smaller nor greater; then the map is left as
  it is. The key order is the one of \<^verbatim>\<open>std::less\<close>: false below true, integers and
  floats by value, strings lexicographically by their bytes.
\<close>

fun emplace :: "'k::linorder \<Rightarrow> 'v \<Rightarrow> ('k \<times> 'v) list \<Rightarrow> ('k \<times> 'v) list" where
  "emplace k v [] = [(k, v)]"
| "emplace k v ((k', v') # m) =
     (if k < k' then (k, v) # (k', v') # m
      else if k' < k then (k', v') # emplace k v m
      else (k', v') # m)"

text \<open>
  \<^verbatim>\<open>map[z].emplace(d, r)\<close>: \<^verbatim>\<open>operator[]\<close> finds the entry of \<open>z\<close>, creating it with
  an empty inner map when there is none; the pair is then emplaced into that inner map.
\<close>

fun subscript_emplace ::
  "'z::linorder \<Rightarrow> 'k::linorder \<Rightarrow> 'v \<Rightarrow> ('z \<times> ('k \<times> 'v) list) list \<Rightarrow> ('z \<times> ('k \<times> 'v) list) list"
where
  "subscript_emplace z d r [] = [(z, emplace d r [])]"
| "subscript_emplace z d r ((z', b) # m) =
     (if z < z' then (z, emplace d r []) # (z', b) # m
      else if z' < z then (z', b) # subscript_emplace z d r m
      else (z', emplace d r b) # m)"

subsection \<open>The type classifier\<close>

datatype FunctionType = Interval | Exponential | Categorical | Identity | Invalid

fun interpolatable :: "type \<Rightarrow> bool" where
  "interpolatable NumberType = True"
| "interpolatable ColorType = True"
| "interpolatable (Array itemType N) = (N \<noteq> None \<and> itemType = NumberType)"
| "interpolatable t = False"

definition functionType :: "type \<Rightarrow> 'n convertible \<Rightarrow> FunctionType" where
  "functionType type value =
     (case objectMember value ''type'' of
        None \<Rightarrow> if interpolatable type then Exponential else Interval
      | Some typeValue \<Rightarrow>
          (case toString typeValue of
             None \<Rightarrow> Invalid
           | Some string \<Rightarrow>
               if string = ''interval'' then Interval
               else if string = ''exponential'' \<and> interpolatable type then Exponential
               else if string = ''categorical'' then Categorical
               else if string = ''identity'' then Identity
               else Invalid))"

subsection \<open>The literal converter\<close>

text \<open>\<^verbatim>\<open>arrayMember(value, 0)\<close>, ..., \<^verbatim>\<open>arrayMember(value, arrayLength(value) - 1)\<close>: the
  members a loop over an array reads, in the order it reads them.\<close>

definition arrayMembers :: "'n convertible \<Rightarrow> 'n convertible list" where
  "arrayMembers value = map (arrayMember value) [0..<arrayLength value]"

text \<open>Modelled from the spec: \<^verbatim>\<open>util::toString\<close> of a \<^verbatim>\<open>std::size_t\<close>, the decimal
  numeral of the length.\<close>

function toString_size :: "nat \<Rightarrow> string" where
  "toString_size n =
     (if n < 10 then [''0123456789'' ! n]
      else toString_size (n div 10) @ [''0123456789'' ! (n mod 10)])"
  by pat_completeness auto
termination
  by (relation "measure (\<lambda>n. n)") auto

text \<open>The two loops over the members of an array value; \<open>result\<close> is the vector filled so
  far.\<close>

fun convertLiteral_numbers ::
  "'n convertible list \<Rightarrow> ('n, 'c) val list \<Rightarrow> ('n, 'c) val list result"
where
  "convertLiteral_numbers [] result = Ok result"
| "convertLiteral_numbers (x # rest) result =
     (case toNumber x of
        None \<Rightarrow> Failed (Error ''value must be an array of numbers'')
      | Some n \<Rightarrow> convertLiteral_numbers rest (result @ [VNumber n]))"

fun convertLiteral_strings ::
  "'n convertible list \<Rightarrow> ('n, 'c) val list \<Rightarrow> ('n, 'c) val list result"
where
  "convertLiteral_strings [] result = Ok result"
| "convertLiteral_strings (x # rest) result =
     (case toString x of
        None \<Rightarrow> Failed (Error ''value must be an array of strings'')
      | Some s \<Rightarrow> convertLiteral_strings rest (result @ [VString s]))"

definition convertLiteral ::
  "('n, 'c) externals \<Rightarrow> type \<Rightarrow> 'n convertible \<Rightarrow> ('n, 'c) expression result"
where
  "convertLiteral X type value =
     (case type of
        NumberType \<Rightarrow>
          (case convert_float value of
             Ok result \<Rightarrow> Ok (literal (VNumber result))
           | Failed e \<Rightarrow> Failed e
           | AssertionFailure \<Rightarrow> AssertionFailure)
      | BooleanType \<Rightarrow>
          (case convert_bool value of
             Ok result \<Rightarrow> Ok (literal (VBool result))
           | Failed e \<Rightarrow> Failed e
           | AssertionFailure \<Rightarrow> AssertionFailure)
      | StringType \<Rightarrow>
          (case convert_string value of
             Ok result \<Rightarrow> Ok (literal (VString result))
           | Failed e \<Rightarrow> Failed e
           | AssertionFailure \<Rightarrow> AssertionFailure)
      | ColorType \<Rightarrow>
          (case convert_Color X value of
             Ok result \<Rightarrow> Ok (literal (VColor result))
           | Failed e \<Rightarrow> Failed e
           | AssertionFailure \<Rightarrow> AssertionFailure)
      | Array itemType N \<Rightarrow>
          if \<not> isArray value then Failed (Error ''value must be an array'')
          else if N \<noteq> None \<and> arrayLength value \<noteq> the N
          then Failed (Error (''value must be an array of length '' @ toString_size (the N)))
          else
            (case itemType of
               NumberType \<Rightarrow>
                 (case convertLiteral_numbers (arrayMembers value) [] of
                    Ok result \<Rightarrow> Ok (literal (VArray result))
                  | Failed e \<Rightarrow> Failed e
                  | AssertionFailure \<Rightarrow> AssertionFailure)
             | StringType \<Rightarrow>
                 (case convertLiteral_strings (arrayMembers value) [] of
                    Ok result \<Rightarrow> Ok (literal (VArray result))
                  | Failed e \<Rightarrow> Failed e
                  | AssertionFailure \<Rightarrow> AssertionFailure)
             | _ \<Rightarrow> AssertionFailure)
      | NullType \<Rightarrow> AssertionFailure
      | ObjectType \<Rightarrow> AssertionFailure
      | ErrorType \<Rightarrow> AssertionFailure
      | ValueType \<Rightarrow> AssertionFailure
      | CollatorType \<Rightarrow> AssertionFailure)"

subsection \<open>The stop collection parsers\<close>

text \<open>The loop of \<^verbatim>\<open>convertStops\<close> over the stops that are left; \<open>stops\<close> is the map built
  so far.\<close>

fun convertStops_loop ::
  "('n::linorder, 'c) externals \<Rightarrow> type \<Rightarrow> 'n convertible list \<Rightarrow>
   ('n \<times> ('n, 'c) expression) list \<Rightarrow> ('n \<times> ('n, 'c) expression) list result"
where
  "convertStops_loop X type [] stops = Ok stops"
| "convertStops_loop X type (stopValue # rest) stops =
     (if \<not> isArray stopValue then Failed (Error ''function stop must be an array'')
      else if arrayLength stopValue \<noteq> 2 then Failed (Error ''function stop must have two elements'')
      else
        (case convert_float (arrayMember stopValue 0) of
           Failed e \<Rightarrow> Failed e
         | AssertionFailure \<Rightarrow> AssertionFailure
         | Ok t \<Rightarrow>
             (case convertLiteral X type (arrayMember stopValue 1) of
                Failed e \<Rightarrow> Failed e
              | AssertionFailure \<Rightarrow> AssertionFailure
              | Ok e \<Rightarrow> convertStops_loop X type rest (emplace t e stops))))"

definition convertStops ::
  "('n::linorder, 'c) externals \<Rightarrow> type \<Rightarrow> 'n convertible \<Rightarrow>
   ('n \<times> ('n, 'c) expression) list result"
where
  "convertStops X type value =
     (case objectMember value ''stops'' of
        None \<Rightarrow> Failed (Error ''function value must specify stops'')
      | Some stopsValue \<Rightarrow>
          if \<not> isArray stopsValue then Failed (Error ''function stops must be an array'')
          else if arrayLength stopsValue = 0 then Failed (Error ''function must have at least one stop'')
          else convertStops_loop X type (arrayMembers stopsValue) [])"

text \<open>\<^verbatim>\<open>convertBranches<T>\<close>: the template parameter is the key type \<open>'k\<close> together with
  its converter \<open>convert\<close>, which stands for \<^verbatim>\<open>convert<T>\<close>.\<close>

fun convertBranches_loop ::
  "('n convertible \<Rightarrow> 'k::linorder result) \<Rightarrow> ('n, 'c) externals \<Rightarrow> type \<Rightarrow> 'n convertible list \<Rightarrow>
   ('k \<times> ('n, 'c) expression) list \<Rightarrow> ('k \<times> ('n, 'c) expression) list result"
where
  "convertBranches_loop convert X type [] stops = Ok stops"
| "convertBranches_loop convert X type (stopValue # rest) stops =
     (if \<not> isArray stopValue then Failed (Error ''function stop must be an array'')
      else if arrayLength stopValue \<noteq> 2 then Failed (Error ''function stop must have two elements'')
      else
        (case convert (arrayMember stopValue 0) of
           Failed e \<Rightarrow> Failed e
         | AssertionFailure \<Rightarrow> AssertionFailure
         | Ok t \<Rightarrow>
             (case convertLiteral X type (arrayMember stopValue 1) of
                Failed e \<Rightarrow> Failed e
              | AssertionFailure \<Rightarrow> AssertionFailure
              | Ok e \<Rightarrow> convertBranches_loop convert X type rest (emplace t e stops))))"

definition convertBranches ::
  "('n convertible \<Rightarrow> 'k::linorder result) \<Rightarrow> ('n, 'c) externals \<Rightarrow> type \<Rightarrow> 'n convertible \<Rightarrow>
   ('k \<times> ('n, 'c) expression) list result"
where
  "convertBranches convert X type value =
     (case objectMember value ''stops'' of
        None \<Rightarrow> Failed (Error ''function value must specify stops'')
      | Some stopsValue \<Rightarrow>
          if \<not> isArray stopsValue then Failed (Error ''function stops must be an array'')
          else if arrayLength stopsValue = 0 then Failed (Error ''function must have at least one stop'')
          else convertBranches_loop convert X type (arrayMembers stopsValue) [])"

subsection \<open>The base parameter parser\<close>

definition convertBase :: "'n::one convertible \<Rightarrow> 'n result" where
  "convertBase value =
     (case objectMember value ''base'' of
        None \<Rightarrow> Ok 1
      | Some baseValue \<Rightarrow>
          (case toNumber baseValue of
             None \<Rightarrow> Failed (Error ''function base must be a number'')
           | Some base \<Rightarrow> Ok base))"

subsection \<open>Expression builders\<close>

definition step ::
  "type \<Rightarrow> ('n, 'c) expression \<Rightarrow> ('n \<times> ('n, 'c) expression) list \<Rightarrow> ('n, 'c) expression"
where
  "step type input stops = Step type input stops"

text \<open>Modelled from the spec: \<^verbatim>\<open>createInterpolate\<close>, which builds an interpolation node for
  an interpolatable type (Number, Color, or fixed-length Number array) and yields nothing
  for any other type.\<close>

definition createInterpolate ::
  "type \<Rightarrow> 'n interpolator \<Rightarrow> ('n, 'c) expression \<Rightarrow> ('n \<times> ('n, 'c) expression) list \<Rightarrow>
   ('n, 'c) expression option"
where
  "createInterpolate type interpolator input stops =
     (if interpolatable type then Some (Interpolate type interpolator input stops) else None)"

definition interpolate ::
  "type \<Rightarrow> 'n interpolator \<Rightarrow> ('n, 'c) expression \<Rightarrow> ('n \<times> ('n, 'c) expression) list \<Rightarrow>
   ('n, 'c) expression result"
where
  "interpolate type interpolator input stops =
     (case createInterpolate type interpolator input stops of
        None \<Rightarrow> AssertionFailure
      | Some result \<Rightarrow> Ok result)"

text \<open>\<^verbatim>\<open>convertedBranches[k] = v\<close> on a \<^verbatim>\<open>std::unordered_map\<close>: the entry of \<open>k\<close> is
  overwritten, or added when there is none.\<close>

fun assign :: "'k \<Rightarrow> 'v \<Rightarrow> ('k \<times> 'v) list \<Rightarrow> ('k \<times> 'v) list" where
  "assign k v [] = [(k, v)]"
| "assign k v ((k', v') # m) = (if k' = k then (k, v) # m else (k', v') # assign k v m)"

text \<open>\<^verbatim>\<open>categorical<T>\<close> for the key types other than \<^verbatim>\<open>bool\<close>; \<open>Match\<close> stands for the
  constructor of \<^verbatim>\<open>Match<T>\<close>.\<close>

definition categorical ::
  "(type \<Rightarrow> ('n, 'c) expression \<Rightarrow> ('k \<times> ('n, 'c) expression) list \<Rightarrow> ('n, 'c) expression \<Rightarrow>
      ('n, 'c) expression) \<Rightarrow>
   type \<Rightarrow> string \<Rightarrow> ('k \<times> ('n, 'c) expression) list \<Rightarrow> ('n, 'c) expression"
where
  "categorical Match type property branches =
     (let convertedBranches = fold (\<lambda>b m. assign (fst b) (snd b) m) branches []
      in Match type (get (literal (VString property))) convertedBranches
           (error ''replaced with default''))"

definition categorical_bool ::
  "type \<Rightarrow> string \<Rightarrow> (bool \<times> ('n, 'c) expression) list \<Rightarrow> ('n, 'c) expression"
where
  "categorical_bool type property branches =
     (let trueCase = (case map_of branches True of
                        None \<Rightarrow> error ''replaced with default''
                      | Some e \<Rightarrow> e);
          falseCase = (case map_of branches False of
                         None \<Rightarrow> error ''replaced with default''
                       | Some e \<Rightarrow> e);
          trueBranch = [(get (literal (VString property)), trueCase)]
      in Case type trueBranch falseCase)"

subsection \<open>Interval, exponential and categorical functions\<close>

definition convertIntervalFunction ::
  "('n::linorder, 'c) externals \<Rightarrow> type \<Rightarrow> 'n convertible \<Rightarrow> ('n, 'c) expression \<Rightarrow>
   ('n, 'c) expression result"
where
  "convertIntervalFunction X type value input =
     (case convertStops X type value of
        Failed e \<Rightarrow> Failed e
      | AssertionFailure \<Rightarrow> AssertionFailure
      | Ok stops \<Rightarrow> Ok (step type input stops))"

definition convertExponentialFunction ::
  "('n::{one,linorder}, 'c) externals \<Rightarrow> type \<Rightarrow> 'n convertible \<Rightarrow> ('n, 'c) expression \<Rightarrow>
   ('n, 'c) expression result"
where
  "convertExponentialFunction X type value input =
     (case convertStops X type value of
        Failed e \<Rightarrow> Failed e
      | AssertionFailure \<Rightarrow> AssertionFailure
      | Ok stops \<Rightarrow>
          (case convertBase value of
             Failed e \<Rightarrow> Failed e
           | AssertionFailure \<Rightarrow> AssertionFailure
           | Ok base \<Rightarrow> interpolate type (exponential base) input stops))"

definition convertCategoricalFunction ::
  "('n, 'c) externals \<Rightarrow> type \<Rightarrow> 'n convertible \<Rightarrow> string \<Rightarrow> ('n, 'c) expression result"
where
  "convertCategoricalFunction X type value property =
     (case objectMember value ''stops'' of
        None \<Rightarrow> Failed (Error ''function value must specify stops'')
      | Some stopsValue \<Rightarrow>
          if \<not> isArray stopsValue then Failed (Error ''function stops must be an array'')
          else if arrayLength stopsValue = 0 then Failed (Error ''function must have at least one stop'')
          else
            (let first = arrayMember stopsValue 0 in
             if \<not> isArray first then Failed (Error ''function stop must be an array'')
             else if arrayLength first \<noteq> 2 then Failed (Error ''function stop must have two elements'')
             else if toBool (arrayMember first 0) \<noteq> None then
               (case convertBranches convert_bool X type value of
                  Failed e \<Rightarrow> Failed e
                | AssertionFailure \<Rightarrow> AssertionFailure
                | Ok branches \<Rightarrow> Ok (categorical_bool type property branches))
             else if toNumber (arrayMember first 0) \<noteq> None then
               (case convertBranches (convert_int64 X) X type value of
                  Failed e \<Rightarrow> Failed e
                | AssertionFailure \<Rightarrow> AssertionFailure
                | Ok branches \<Rightarrow> Ok (categorical MatchInt64 type property branches))
             else if toString (arrayMember first 0) \<noteq> None then
               (case convertBranches convert_string X type value of
                  Failed e \<Rightarrow> Failed e
                | AssertionFailure \<Rightarrow> AssertionFailure
                | Ok branches \<Rightarrow> Ok (categorical MatchString type property branches))
             else Failed (Error ''stop domain value must be a number, string, or boolean'')))"

subsection \<open>The camera function converter\<close>

definition convertCameraFunctionToExpression ::
  "('n::{one,linorder}, 'c) externals \<Rightarrow> type \<Rightarrow> 'n convertible \<Rightarrow> ('n, 'c) expression result"
where
  "convertCameraFunctionToExpression X type value =
     (if \<not> isObject value then Failed (Error ''function must be an object'')
      else
        (case functionType type value of
           Interval \<Rightarrow> convertIntervalFunction X type value zoom
         | Exponential \<Rightarrow> convertExponentialFunction X type value zoom
         | _ \<Rightarrow> Failed (Error ''unsupported function type'')))"

subsection \<open>The composite function converter\<close>

text \<open>The first loop of \<^verbatim>\<open>composite<T>\<close> over the stops that are left; \<open>map'\<close> is the map of
  per-zoom maps built so far, \<open>convert\<close> stands for \<^verbatim>\<open>convert<T>\<close>.\<close>

fun composite_loop ::
  "('n convertible \<Rightarrow> 'k::linorder result) \<Rightarrow> ('n::linorder, 'c) externals \<Rightarrow> type \<Rightarrow>
   'n convertible list \<Rightarrow> ('n \<times> ('k \<times> ('n, 'c) expression) list) list \<Rightarrow>
   ('n \<times> ('k \<times> ('n, 'c) expression) list) list result"
where
  "composite_loop convert X type [] map' = Ok map'"
| "composite_loop convert X type (stopValue # rest) map' =
     (if \<not> isArray stopValue then Failed (Error ''function stop must be an array'')
      else if arrayLength stopValue \<noteq> 2 then Failed (Error ''function stop must have two elements'')
      else
        (let stopInput = arrayMember stopValue 0 in
         if \<not> isObject stopInput then Failed (Error ''stop input must be an object'')
         else
           (case objectMember stopInput ''zoom'' of
              None \<Rightarrow> Failed (Error ''stop input must specify zoom'')
            | Some zoomValue \<Rightarrow>
                (case objectMember stopInput ''value'' of
                   None \<Rightarrow> Failed (Error ''stop input must specify value'')
                 | Some sourceValue \<Rightarrow>
                     (case convert_float zoomValue of
                        Failed e \<Rightarrow> Failed e
                      | AssertionFailure \<Rightarrow> AssertionFailure
                      | Ok z \<Rightarrow>
                          (case convert sourceValue of
                             Failed e \<Rightarrow> Failed e
                           | AssertionFailure \<Rightarrow> AssertionFailure
                           | Ok d \<Rightarrow>
                               (case convertLiteral X type (arrayMember stopValue 1) of
                                  Failed e \<Rightarrow> Failed e
                                | AssertionFailure \<Rightarrow> AssertionFailure
                                | Ok r \<Rightarrow>
                                    composite_loop convert X type rest
                                      (subscript_emplace z d r map'))))))))"

text \<open>The second loop of \<^verbatim>\<open>composite<T>\<close> over the entries of \<open>map'\<close> that are left, in
  ascending order of zoom; \<open>stops\<close> is the outer map built so far. An inner builder that
  fails its assertion fails the call.\<close>

fun composite_stops ::
  "(type \<Rightarrow> 'n \<Rightarrow> string \<Rightarrow> ('k \<times> ('n, 'c) expression) list \<Rightarrow> ('n, 'c) expression result) \<Rightarrow>
   type \<Rightarrow> 'n::linorder \<Rightarrow> string \<Rightarrow> ('n \<times> ('k \<times> ('n, 'c) expression) list) list \<Rightarrow>
   ('n \<times> ('n, 'c) expression) list \<Rightarrow> ('n \<times> ('n, 'c) expression) list result"
where
  "composite_stops makeInnerExpression type base property [] stops = Ok stops"
| "composite_stops makeInnerExpression type base property (e # rest) stops =
     (case makeInnerExpression type base property (snd e) of
        Failed err \<Rightarrow> Failed err
      | AssertionFailure \<Rightarrow> AssertionFailure
      | Ok innerExpression \<Rightarrow>
          composite_stops makeInnerExpression type base property rest
            (emplace (fst e) innerExpression stops))"

definition composite ::
  "('n convertible \<Rightarrow> 'k::linorder result) \<Rightarrow> ('n::{one,linorder}, 'c) externals \<Rightarrow> type \<Rightarrow>
   'n convertible \<Rightarrow>
   (type \<Rightarrow> 'n \<Rightarrow> string \<Rightarrow> ('k \<times> ('n, 'c) expression) list \<Rightarrow> ('n, 'c) expression result) \<Rightarrow>
   ('n, 'c) expression result"
where
  "composite convert X type value makeInnerExpression =
     (case objectMember value ''property'' of
        None \<Rightarrow> Failed (Error ''function must specify property'')
      | Some propertyValue \<Rightarrow>
          (case convertBase value of
             Failed e \<Rightarrow> Failed e
           | AssertionFailure \<Rightarrow> AssertionFailure
           | Ok base \<Rightarrow>
               (case toString propertyValue of
                  None \<Rightarrow> Failed (Error ''function property must be a string'')
                | Some propertyString \<Rightarrow>
                    (case objectMember value ''stops'' of
                       None \<Rightarrow> AssertionFailure
                     | Some stopsValue \<Rightarrow>
                         if \<not> isArray stopsValue then AssertionFailure
                         else
                           (case composite_loop convert X type (arrayMembers stopsValue) [] of
                              Failed e \<Rightarrow> Failed e
                            | AssertionFailure \<Rightarrow> AssertionFailure
                            | Ok map' \<Rightarrow>
                                (case composite_stops makeInnerExpression type base
                                        propertyString map' [] of
                                   Failed e \<Rightarrow> Failed e
                                 | AssertionFailure \<Rightarrow> AssertionFailure
                                 | Ok stops \<Rightarrow>
                                     if interpolatable type
                                     then interpolate type linear zoom stops
                                     else Ok (step type zoom stops)))))))"

definition convertCompositeFunctionToExpression ::
  "('n::{one,linorder}, 'c) externals \<Rightarrow> type \<Rightarrow> 'n convertible \<Rightarrow> ('n, 'c) expression result"
where
  "convertCompositeFunctionToExpression X type value =
     (if \<not> isObject value then Failed (Error ''function must be an object'')
      else
        (case objectMember value ''stops'' of
           None \<Rightarrow> Failed (Error ''function value must specify stops'')
         | Some stopsValue \<Rightarrow>
             if \<not> isArray stopsValue then Failed (Error ''function stops must be an array'')
             else if arrayLength stopsValue = 0
             then Failed (Error ''function must have at least one stop'')
             else
               (let first = arrayMember stopsValue 0 in
                if \<not> isArray first then Failed (Error ''function stop must be an array'')
                else if arrayLength first \<noteq> 2
                then Failed (Error ''function stop must have two elements'')
                else
                  (let stop = arrayMember first 0 in
                   if \<not> isObject stop then Failed (Error ''stop must be an object'')
                   else
                     (case objectMember stop ''value'' of
                        None \<Rightarrow> Failed (Error ''stop must specify value'')
                      | Some sourceValue \<Rightarrow>
                          if toBool sourceValue \<noteq> None then
                            (case functionType type value of
                               Categorical \<Rightarrow>
                                 composite convert_bool X type value
                                   (\<lambda>type' base property stops.
                                      Ok (categorical_bool type' property stops))
                             | _ \<Rightarrow> Failed (Error ''unsupported function type''))
                          else if toNumber sourceValue \<noteq> None then
                            (case functionType type value of
                               Interval \<Rightarrow>
                                 composite convert_double X type value
                                   (\<lambda>type' base property stops.
                                      Ok (step type' (number (get (literal (VString property))))
                                            stops))
                             | Exponential \<Rightarrow>
                                 composite convert_double X type value
                                   (\<lambda>type' base property stops.
                                      interpolate type' (exponential base)
                                        (number (get (literal (VString property)))) stops)
                             | Categorical \<Rightarrow>
                                 composite (convert_int64 X) X type value
                                   (\<lambda>type' base property stops.
                                      Ok (categorical MatchInt64 type' property stops))
                             | _ \<Rightarrow> Failed (Error ''unsupported function type''))
                          else if toString sourceValue \<noteq> None then
                            (case functionType type value of
                               Categorical \<Rightarrow>
                                 composite convert_string X type value
                                   (\<lambda>type' base property stops.
                                      Ok (categorical MatchString type' property stops))
                             | _ \<Rightarrow> Failed (Error ''unsupported function type''))
                          else
                            Failed
                              (Error ''stop domain value must be a number, string, or boolean''))))))"

subsection \<open>Notions used in the statements\<close>

text \<open>
  A stop parses to the pair \<open>p\<close>: it is an array of two elements, its first element converts to
  the key of \<open>p\<close> and its second element converts, by the literal converter, to the
  expression of \<open>p\<close>.
\<close>

definition stopParses ::
  "('n convertible \<Rightarrow> 'k result) \<Rightarrow> ('n, 'c) externals \<Rightarrow> type \<Rightarrow> 'n convertible \<Rightarrow>
   'k \<times> ('n, 'c) expression \<Rightarrow> bool"
where
  "stopParses convert X type stopValue p \<longleftrightarrow>
     isArray stopValue \<and> arrayLength stopValue = 2
     \<and> convert (arrayMember stopValue 0) = Ok (fst p)
     \<and> convertLiteral X type (arrayMember stopValue 1) = Ok (snd p)"

text \<open>
  A composite stop parses to the triple \<open>t\<close> of zoom, inner key and literal: it is an array
  of two elements whose first element is an object with a "zoom" member that converts to
  the zoom and a "value" member that converts to the inner key, and whose second element
  converts to the literal.
\<close>

definition tripleParses ::
  "('n convertible \<Rightarrow> 'k result) \<Rightarrow> ('n, 'c) externals \<Rightarrow> type \<Rightarrow> 'n convertible \<Rightarrow>
   'n \<times> 'k \<times> ('n, 'c) expression \<Rightarrow> bool"
where
  "tripleParses convert X type stopValue t \<longleftrightarrow>
     isArray stopValue \<and> arrayLength stopValue = 2
     \<and> isObject (arrayMember stopValue 0)
     \<and> (case objectMember (arrayMember stopValue 0) ''zoom'' of
          None \<Rightarrow> False
        | Some zoomValue \<Rightarrow>
            (case objectMember (arrayMember stopValue 0) ''value'' of
               None \<Rightarrow> False
             | Some sourceValue \<Rightarrow>
                 convert_float zoomValue = Ok (fst t) \<and> convert sourceValue = Ok (fst (snd t))))
     \<and> convertLiteral X type (arrayMember stopValue 1) = Ok (snd (snd t))"

text \<open>The value of the first pair with key \<open>k\<close> in a list of pairs, if there is one.\<close>

definition first_seen :: "('k \<times> 'v) list \<Rightarrow> 'k \<Rightarrow> 'v option" where
  "first_seen ps k = map_option snd (find (\<lambda>p. fst p = k) ps)"

text \<open>The inner map of zoom \<open>z\<close> in a map of per-zoom maps; empty when \<open>z\<close> has no entry.\<close>

definition bucket :: "('z \<times> ('k \<times> 'v) list) list \<Rightarrow> 'z \<Rightarrow> ('k \<times> 'v) list" where
  "bucket M z = (case map_of M z of None \<Rightarrow> [] | Some b \<Rightarrow> b)"

abbreviation group_step ::
  "'z::linorder \<times> 'k::linorder \<times> 'v \<Rightarrow> ('z \<times> ('k \<times> 'v) list) list \<Rightarrow> ('z \<times> ('k \<times> 'v) list) list"
where
  "group_step t M \<equiv> subscript_emplace (fst t) (fst (snd t)) (snd (snd t)) M"

subsection \<open>Examples\<close>

text \<open>
  The examples run with rational numbers for the floats, the conversion to
  \<^verbatim>\<open>int64_t\<close> truncating towards zero, and a colour parser that accepts nothing (no
  example has a colour).
\<close>

definition example_externals :: "(rat, string) externals" where
  "example_externals =
     \<lparr>toInt64 = (\<lambda>q. if q < 0 then - \<lfloor>- q\<rfloor> else \<lfloor>q\<rfloor>), parseColor = (\<lambda>s. None)\<rparr>"

text \<open>\<^verbatim>\<open>{"stops": [[1, "a"], [1, "b"]]}\<close>\<close>

definition duplicate_stops :: "rat convertible" where
  "duplicate_stops =
     CObject [(''stops'', CArray [CArray [CNumber 1, CString ''a''],
                                  CArray [CNumber 1, CString ''b'']])]"

text \<open>\<^verbatim>\<open>[[{"zoom": 0, "value": 1}, "a"], [{"zoom": 0, "value": 1}, "b"]]\<close>\<close>

definition duplicate_composite_stops :: "rat convertible list" where
  "duplicate_composite_stops =
     [CArray [CObject [(''zoom'', CNumber 0), (''value'', CNumber 1)], CString ''a''],
      CArray [CObject [(''zoom'', CNumber 0), (''value'', CNumber 1)], CString ''b'']]"

text \<open>\<^verbatim>\<open>{"stops": [[1, "a"], "oops", [2, "b"]]}\<close>\<close>

definition broken_stops :: "rat convertible" where
  "broken_stops =
     CObject [(''stops'', CArray [CArray [CNumber 1, CString ''a''], CString ''oops'',
                                  CArray [CNumber 2, CString ''b'']])]"

text \<open>\<^verbatim>\<open>{"stops": [[1, "a", "b"]]}\<close>\<close>

definition long_stop :: "rat convertible" where
  "long_stop =
     CObject [(''stops'', CArray [CArray [CNumber 1, CString ''a'', CString ''b'']])]"

text \<open>\<^verbatim>\<open>{"type": "exponential", "base": 2, "stops": [[0, 1], [10, 4]]}\<close>, and the same
  without "base".\<close>

definition camera_base_2 :: "rat convertible" where
  "camera_base_2 =
     CObject [(''type'', CString ''exponential''), (''base'', CNumber 2),
              (''stops'', CArray [CArray [CNumber 0, CNumber 1], CArray [CNumber 10, CNumber 4]])]"

definition camera_no_base :: "rat convertible" where
  "camera_no_base =
     CObject [(''type'', CString ''exponential''),
              (''stops'', CArray [CArray [CNumber 0, CNumber 1], CArray [CNumber 10, CNumber 4]])]"

text \<open>Categorical stops whose first key is \<^verbatim>\<open>true\<close>, \<^verbatim>\<open>5\<close>, \<^verbatim>\<open>"x"\<close> and
  \<^verbatim>\<open>null\<close>.\<close>

definition boolean_stops :: "rat convertible" where
  "boolean_stops = CObject [(''stops'', CArray [CArray [CBool True, CString ''A'']])]"

definition integer_stops :: "rat convertible" where
  "integer_stops = CObject [(''stops'', CArray [CArray [CNumber 5, CString ''A'']])]"

definition string_stops :: "rat convertible" where
  "string_stops = CObject [(''stops'', CArray [CArray [CString ''x'', CString ''A'']])]"

definition null_stops :: "rat convertible" where
  "null_stops = CObject [(''stops'', CArray [CArray [CNull, CString ''A'']])]"

text \<open>Categorical stops whose first key coerces in more than one way: to \<^verbatim>\<open>true\<close> and
  \<^verbatim>\<open>1\<close>; to \<^verbatim>\<open>5\<close> and \<^verbatim>\<open>"5"\<close>; to \<^verbatim>\<open>false\<close>, \<^verbatim>\<open>0\<close> and \<^verbatim>\<open>"no"\<close>.\<close>

definition boolean_number_stops :: "rat convertible" where
  "boolean_number_stops =
     CObject [(''stops'', CArray [CArray [CScalar (Some True) (Some 1) None, CString ''A'']])]"

definition number_string_stops :: "rat convertible" where
  "number_string_stops =
     CObject [(''stops'', CArray [CArray [CScalar None (Some 5) (Some ''5''), CString ''A'']])]"

definition every_way_stops :: "rat convertible" where
  "every_way_stops =
     CObject [(''stops'',
       CArray [CArray [CScalar (Some False) (Some 0) (Some ''no''), CString ''A'']])]"

text \<open>Composite functions whose "base" is not a number: one without "property", one of shape
  interval over a boolean inner domain, one of shape identity, one of shape interval whose
  second stop is not a stop, one of shape categorical whose "property" is not a string.\<close>

definition composite_no_property :: "rat convertible" where
  "composite_no_property =
     CObject [(''base'', CString ''x''),
              (''stops'', CArray [CArray [CObject [(''zoom'', CNumber 0), (''value'', CNumber 0)],
                                          CNumber 1]])]"

definition composite_interval_boolean :: "rat convertible" where
  "composite_interval_boolean =
     CObject [(''type'', CString ''interval''), (''property'', CString ''p''),
              (''base'', CString ''x''),
              (''stops'', CArray [CArray [CObject [(''zoom'', CNumber 0), (''value'', CBool True)],
                                          CNumber 1]])]"

definition composite_identity :: "rat convertible" where
  "composite_identity =
     CObject [(''type'', CString ''identity''), (''property'', CString ''p''),
              (''base'', CString ''x''),
              (''stops'', CArray [CArray [CObject [(''zoom'', CNumber 0), (''value'', CNumber 0)],
                                          CNumber 1]])]"

definition composite_interval_bad_base :: "rat convertible" where
  "composite_interval_bad_base =
     CObject [(''type'', CString ''interval''), (''property'', CString ''p''),
              (''base'', CString ''x''),
              (''stops'', CArray [CArray [CObject [(''zoom'', CNumber 0), (''value'', CNumber 0)],
                                          CNumber 1],
                                  CString ''not a stop''])]"

definition composite_categorical_bad_base :: "rat convertible" where
  "composite_categorical_bad_base =
     CObject [(''type'', CString ''categorical''), (''property'', CNumber 7),
              (''base'', CNull),
              (''stops'', CArray [CArray [CObject [(''zoom'', CNumber 0), (''value'', CString ''a'')],
                                          CNumber 1]])]"

text \<open>\<^verbatim>\<open>[[{"zoom":0,"value":0},1], [{"zoom":0,"value":10},2], [{"zoom":5,"value":0},3]]\<close>,
  the function \<^verbatim>\<open>{"property": "p", "stops": ...}\<close> with these stops, and the same function
  with the outputs \<^verbatim>\<open>"a"\<close>, \<^verbatim>\<open>"b"\<close>, \<^verbatim>\<open>"c"\<close>.\<close>

definition zoom_value_stops :: "rat convertible list" where
  "zoom_value_stops =
     [CArray [CObject [(''zoom'', CNumber 0), (''value'', CNumber 0)], CNumber 1],
      CArray [CObject [(''zoom'', CNumber 0), (''value'', CNumber 10)], CNumber 2],
      CArray [CObject [(''zoom'', CNumber 5), (''value'', CNumber 0)], CNumber 3]]"

definition zoom_value_function :: "rat convertible" where
  "zoom_value_function = CObject [(''property'', CString ''p''), (''stops'', CArray zoom_value_stops)]"

definition zoom_value_string_function :: "rat convertible" where
  "zoom_value_string_function =
     CObject [(''property'', CString ''p''),
              (''stops'', CArray
                 [CArray [CObject [(''zoom'', CNumber 0), (''value'', CNumber 0)], CString ''a''],
                  CArray [CObject [(''zoom'', CNumber 0), (''value'', CNumber 10)], CString ''b''],
                  CArray [CObject [(''zoom'', CNumber 5), (''value'', CNumber 0)], CString ''c'']])]"

text \<open>The expression that the function over the numbers is converted to, for a Number
  target.\<close>

definition zoom_value_result :: "(rat, string) expression" where
  "zoom_value_result =
     Interpolate NumberType LinearInterpolator Zoom
       [(0, Interpolate NumberType (ExponentialInterpolator 1)
              (NumberAssertion (Get (Literal (VString ''p''))))
              [(0, Literal (VNumber 1)), (10, Literal (VNumber 2))]),
        (5, Interpolate NumberType (ExponentialInterpolator 1)
              (NumberAssertion (Get (Literal (VString ''p''))))
              [(0, Literal (VNumber 3))])]"

text \<open>Stops at the zooms 10, 0 and 5, in this order, and the function
  \<^verbatim>\<open>{"property": "p", "stops": ...}\<close> with these stops.\<close>

definition three_zoom_stops :: "rat convertible list" where
  "three_zoom_stops =
     [CArray [CObject [(''zoom'', CNumber 10), (''value'', CNumber 0)], CNumber 3],
      CArray [CObject [(''zoom'', CNumber 0), (''value'', CNumber 0)], CNumber 1],
      CArray [CObject [(''zoom'', CNumber 5), (''value'', CNumber 0)], CNumber 2]]"

definition three_zoom_function :: "rat convertible" where
  "three_zoom_function =
     CObject [(''property'', CString ''p''), (''stops'', CArray three_zoom_stops)]"

section \<open>Properties\<close>

subsection \<open>Basic facts\<close>

lemma arrayMembers_CArray [simp]: "arrayMembers (CArray xs) = xs"
  by (auto simp: arrayMembers_def intro: nth_equalityI)

lemma isArray_iff: "isArray v \<longleftrightarrow> (\<exists>xs. v = CArray xs)"
  by (cases v) auto

lemma map_of_first_seen: "map_of ps k = first_seen ps k"
  by (induction ps) (auto simp: first_seen_def)

lemma sorted_less_distinct: "sorted_wrt (<) (xs :: 'a::linorder list) \<Longrightarrow> distinct xs"
  by (induction xs) auto

lemmas eval_defs =
  convertBranches_def convertStops_def convert_float_def convert_int64_def convert_double_def
  convert_bool_def convert_string_def convertLiteral_def literal_def example_externals_def

lemma isObject_iff: "isObject v \<longleftrightarrow> (\<exists>ms. v = CObject ms)"
  by (cases v) auto

lemma functionType_Exponential: "functionType type value = Exponential \<Longrightarrow> interpolatable type"
  by (auto simp: functionType_def split: option.splits if_splits)

lemmas categorical_defs =
  convertCategoricalFunction_def categorical_def categorical_bool_def get_def error_def

lemmas composite_eval_defs =
  convertCompositeFunctionToExpression_def composite_def functionType_def convertBase_def
  interpolate_def createInterpolate_def step_def number_def get_def zoom_def linear_def
  exponential_def

subsection \<open>Ordered maps\<close>

lemma keys_emplace: "fst ` set (emplace k v m) = insert k (fst ` set m)"
proof (induction m)
  case Nil
  show ?case by simp
next
  case (Cons p m)
  obtain k' v' where p: "p = (k', v')" by (cases p)
  consider "k < k'" | "k' < k" | "k = k'" by (metis less_linear)
  then show ?case
  proof cases
    case 1
    with p show ?thesis by simp
  next
    case 2
    with p Cons.IH show ?thesis by auto
  next
    case 3
    with p show ?thesis by simp
  qed
qed

lemma sorted_emplace:
  "sorted_wrt (<) (map fst m) \<Longrightarrow> sorted_wrt (<) (map fst (emplace k v m))"
proof (induction m)
  case Nil
  show ?case by simp
next
  case (Cons p m)
  obtain k' v' where p: "p = (k', v')" by (cases p)
  from Cons.prems p have less: "\<forall>x \<in> fst ` set m. k' < x"
    and sorted: "sorted_wrt (<) (map fst m)"
    by auto
  show ?case
  proof (cases "k < k'")
    case True
    with less have "\<forall>x \<in> fst ` set m. k < x" by fastforce
    with True p Cons.prems show ?thesis by simp
  next
    case False
    show ?thesis
    proof (cases "k' < k")
      case True
      with less have "\<forall>x \<in> fst ` set (emplace k v m). k' < x"
        unfolding keys_emplace by simp
      with True False p Cons.IH [OF sorted] show ?thesis by simp
    next
      case False
      with \<open>\<not> k < k'\<close> p Cons.prems show ?thesis by simp
    qed
  qed
qed

lemma map_of_emplace:
  "sorted_wrt (<) (map fst m) \<Longrightarrow> map_of (emplace k v m) = [k \<mapsto> v] ++ map_of m"
proof (induction m)
  case Nil
  show ?case by simp
next
  case (Cons p m)
  obtain k' v' where p: "p = (k', v')" by (cases p)
  from Cons.prems p have less: "\<forall>q \<in> set m. k' < fst q" and sorted: "sorted_wrt (<) (map fst m)"
    by auto
  show ?case
  proof (cases "k < k'")
    case True
    have "map_of m k = None"
    proof (rule ccontr)
      assume "map_of m k \<noteq> None"
      then obtain w where "(k, w) \<in> set m" by (auto dest: map_of_SomeD)
      with less have "k' < k" by fastforce
      with True show False by simp
    qed
    with True p show ?thesis
      by (auto simp: fun_eq_iff map_add_def split: option.splits)
  next
    case False
    show ?thesis
    proof (cases "k' < k")
      case True
      with False p Cons.IH [OF sorted] show ?thesis
        by (auto simp: fun_eq_iff map_add_def split: option.splits)
    next
      case False
      with \<open>\<not> k < k'\<close> have "k = k'" by simp
      with p show ?thesis
        by (auto simp: fun_eq_iff map_add_def split: option.splits)
    qed
  qed
qed

lemma emplace_snoc:
  "\<forall>q \<in> set m. fst q < k \<Longrightarrow> emplace k v m = m @ [(k, v)]"
  by (induction m) auto

lemma fold_emplace_sorted:
  "sorted_wrt (<) (map fst (acc @ ps)) \<Longrightarrow> fold (\<lambda>p. emplace (fst p) (snd p)) ps acc = acc @ ps"
proof (induction ps arbitrary: acc)
  case Nil
  show ?case by simp
next
  case (Cons p ps)
  from Cons.prems have "\<forall>q \<in> set acc. fst q < fst p"
    by (auto simp: sorted_wrt_append)
  then have "emplace (fst p) (snd p) acc = acc @ [p]"
    by (simp add: emplace_snoc)
  moreover from Cons.prems have "sorted_wrt (<) (map fst ((acc @ [p]) @ ps))" by simp
  ultimately show ?case using Cons.IH [of "acc @ [p]"] by simp
qed

lemma sorted_fold_emplace:
  "sorted_wrt (<) (map fst acc) \<Longrightarrow>
   sorted_wrt (<) (map fst (fold (\<lambda>p. emplace (fst p) (snd p)) ps acc))"
  by (induction ps arbitrary: acc) (auto simp: sorted_emplace)

lemma map_of_fold_emplace:
  "sorted_wrt (<) (map fst acc) \<Longrightarrow>
   map_of (fold (\<lambda>p. emplace (fst p) (snd p)) ps acc) = map_of ps ++ map_of acc"
proof (induction ps arbitrary: acc)
  case Nil
  show ?case by simp
next
  case (Cons p ps)
  have "map_of (fold (\<lambda>p. emplace (fst p) (snd p)) (p # ps) acc)
        = map_of ps ++ map_of (emplace (fst p) (snd p) acc)"
    using Cons.IH [of "emplace (fst p) (snd p) acc"] Cons.prems by (simp add: sorted_emplace)
  also have "\<dots> = map_of ps ++ ([fst p \<mapsto> snd p] ++ map_of acc)"
    using Cons.prems by (simp add: map_of_emplace)
  also have "\<dots> = map_of (p # ps) ++ map_of acc"
    by (cases p) (auto simp: fun_eq_iff map_add_def split: option.splits)
  finally show ?case .
qed



subsection \<open>The loops over the stops\<close>

lemma convertStops_loop_eq:
  "convertStops_loop X type ss acc = convertBranches_loop convert_float X type ss acc"
  by (induction ss arbitrary: acc) (simp_all split: result.splits)

lemma convertStops_eq: "convertStops X type value = convertBranches convert_float X type value"
  by (simp add: convertStops_def convertBranches_def convertStops_loop_eq split: option.splits)

lemma convertBranches_loop_prefix:
  "list_all2 (stopParses convert X type) pre ps \<Longrightarrow>
   convertBranches_loop convert X type (pre @ rest) acc
     = convertBranches_loop convert X type rest (fold (\<lambda>p. emplace (fst p) (snd p)) ps acc)"
proof (induction pre ps arbitrary: acc rule: list_all2_induct)
  case Nil
  show ?case by simp
next
  case (Cons s p pre ps)
  from Cons.hyps(1) show ?case
    by (simp add: stopParses_def Cons.IH)
qed

lemma convertBranches_loop_Ok:
  "convertBranches_loop convert X type ss acc = Ok m \<Longrightarrow>
   \<exists>ps. list_all2 (stopParses convert X type) ss ps
        \<and> m = fold (\<lambda>p. emplace (fst p) (snd p)) ps acc"
proof (induction ss arbitrary: acc)
  case Nil
  then show ?case by simp
next
  case (Cons s ss)
  from Cons.prems obtain t e where
    shape: "isArray s" "arrayLength s = 2"
    and t: "convert (arrayMember s 0) = Ok t"
    and e: "convertLiteral X type (arrayMember s 1) = Ok e"
    and rest: "convertBranches_loop convert X type ss (emplace t e acc) = Ok m"
    by (auto split: if_splits result.splits)
  from Cons.IH [OF rest] obtain ps where
    ps: "list_all2 (stopParses convert X type) ss ps"
        "m = fold (\<lambda>p. emplace (fst p) (snd p)) ps (emplace t e acc)"
    by blast
  from shape t e have "stopParses convert X type s (t, e)"
    by (simp add: stopParses_def)
  with ps have "list_all2 (stopParses convert X type) (s # ss) ((t, e) # ps)
      \<and> m = fold (\<lambda>p. emplace (fst p) (snd p)) ((t, e) # ps) acc"
    by simp
  then show ?case by blast
qed



lemma keys_subscript_emplace:
  "fst ` set (subscript_emplace z d r M) = insert z (fst ` set M)"
proof (induction M)
  case Nil
  show ?case by simp
next
  case (Cons p M)
  obtain z' b where p: "p = (z', b)" by (cases p)
  consider "z < z'" | "z' < z" | "z = z'" by (metis less_linear)
  then show ?case
  proof cases
    case 1
    with p show ?thesis by simp
  next
    case 2
    with p Cons.IH show ?thesis by auto
  next
    case 3
    with p show ?thesis by simp
  qed
qed

lemma sorted_subscript_emplace:
  "sorted_wrt (<) (map fst M) \<Longrightarrow> sorted_wrt (<) (map fst (subscript_emplace z d r M))"
proof (induction M)
  case Nil
  show ?case by simp
next
  case (Cons p M)
  obtain z' b where p: "p = (z', b)" by (cases p)
  from Cons.prems p have less: "\<forall>x \<in> fst ` set M. z' < x"
    and sorted: "sorted_wrt (<) (map fst M)"
    by auto
  consider "z < z'" | "z' < z" | "z = z'" by (metis less_linear)
  then show ?case
  proof cases
    case 1
    with less have "\<forall>x \<in> fst ` set M. z < x" by fastforce
    with 1 p Cons.prems show ?thesis by simp
  next
    case 2
    with less have "\<forall>x \<in> fst ` set (subscript_emplace z d r M). z' < x"
      unfolding keys_subscript_emplace by simp
    moreover from 2 have "\<not> z < z'" by (simp add: not_less_iff_gr_or_eq)
    ultimately show ?thesis using 2 p Cons.IH [OF sorted] by simp
  next
    case 3
    with p Cons.prems show ?thesis by simp
  qed
qed

lemma map_of_sorted_less:
  "sorted_wrt (<) (map fst ((z', b) # M)) \<Longrightarrow> z \<le> (z' :: 'z::linorder) \<Longrightarrow> map_of M z = None"
proof (rule ccontr)
  assume s: "sorted_wrt (<) (map fst ((z', b) # M))" and le: "z \<le> z'"
    and "map_of M z \<noteq> None"
  then obtain w where "(z, w) \<in> set M" by (auto dest: map_of_SomeD)
  with s have "z' < z" by fastforce
  with le show False by simp
qed

lemma bucket_subscript_emplace:
  "sorted_wrt (<) (map fst M) \<Longrightarrow>
   bucket (subscript_emplace z d r M) z'
     = (if z' = z then emplace d r (bucket M z) else bucket M z')"
proof (induction M)
  case Nil
  show ?case by (simp add: bucket_def)
next
  case (Cons p M)
  obtain y b where p: "p = (y, b)" by (cases p)
  from Cons.prems have sorted: "sorted_wrt (<) (map fst M)" by simp
  consider "z < y" | "y < z" | "z = y" by (metis less_linear)
  then show ?case
  proof cases
    case 1
    then have "map_of M z = None"
      using map_of_sorted_less [of y b M z] Cons.prems p by simp
    with 1 p show ?thesis by (auto simp: bucket_def)
  next
    case 2
    with p Cons.IH [OF sorted] show ?thesis
      by (auto simp: bucket_def)
  next
    case 3
    with p show ?thesis by (auto simp: bucket_def)
  qed
qed

lemma keys_fold_subscript_emplace:
  "fst ` set (fold group_step ts M) = fst ` set ts \<union> fst ` set M"
  by (induction ts arbitrary: M) (simp_all add: keys_subscript_emplace)

lemma sorted_fold_subscript_emplace:
  "sorted_wrt (<) (map fst M) \<Longrightarrow> sorted_wrt (<) (map fst (fold group_step ts M))"
  by (induction ts arbitrary: M) (simp_all add: sorted_subscript_emplace)

lemma bucket_fold_sorted:
  "sorted_wrt (<) (map fst M) \<Longrightarrow> \<forall>z. sorted_wrt (<) (map fst (bucket M z)) \<Longrightarrow>
   sorted_wrt (<) (map fst (bucket (fold group_step ts M) z))"
proof (induction ts arbitrary: M)
  case Nil
  then show ?case by simp
next
  case (Cons t ts)
  have "\<forall>z. sorted_wrt (<) (map fst (bucket (group_step t M) z))"
    using Cons.prems by (simp add: bucket_subscript_emplace sorted_emplace)
  with Cons.IH [of "group_step t M"] Cons.prems(1) show ?case
    by (simp add: sorted_subscript_emplace)
qed

lemma map_of_bucket_fold:
  "sorted_wrt (<) (map fst M) \<Longrightarrow> \<forall>z. sorted_wrt (<) (map fst (bucket M z)) \<Longrightarrow>
   map_of (bucket (fold group_step ts M) z)
     = map_of (map snd (filter (\<lambda>t. fst t = z) ts)) ++ map_of (bucket M z)"
proof (induction ts arbitrary: M)
  case Nil
  show ?case by simp
next
  case (Cons t ts)
  let ?M = "group_step t M"
  have sorted: "sorted_wrt (<) (map fst ?M)"
    using Cons.prems(1) by (simp add: sorted_subscript_emplace)
  have inner: "\<forall>z. sorted_wrt (<) (map fst (bucket ?M z))"
    using Cons.prems by (simp add: bucket_subscript_emplace sorted_emplace)
  have "map_of (bucket (fold group_step (t # ts) M) z)
        = map_of (map snd (filter (\<lambda>t. fst t = z) ts)) ++ map_of (bucket ?M z)"
    using Cons.IH [OF sorted inner] by simp
  also have "\<dots> = map_of (map snd (filter (\<lambda>t. fst t = z) (t # ts))) ++ map_of (bucket M z)"
  proof (cases "fst t = z")
    case True
    have "map_of (bucket ?M z) = [fst (snd t) \<mapsto> snd (snd t)] ++ map_of (bucket M z)"
      using True Cons.prems by (simp add: bucket_subscript_emplace map_of_emplace)
    with True show ?thesis
      by (cases "snd t") (auto simp: fun_eq_iff map_add_def split: option.splits)
  next
    case False
    with Cons.prems(1) show ?thesis by (simp add: bucket_subscript_emplace)
  qed
  finally show ?case .
qed

lemma composite_loop_Ok:
  "composite_loop convert X type ss acc = Ok M \<Longrightarrow>
   \<exists>ts. list_all2 (tripleParses convert X type) ss ts \<and> M = fold group_step ts acc"
proof (induction ss arbitrary: acc)
  case Nil
  then show ?case by simp
next
  case (Cons s ss)
  from Cons.prems obtain z d r where
    parsed: "tripleParses convert X type s (z, d, r)"
    and rest: "composite_loop convert X type ss (subscript_emplace z d r acc) = Ok M"
    by (auto simp: tripleParses_def Let_def split: if_splits result.splits option.splits)
  from Cons.IH [OF rest] obtain ts where
    ts: "list_all2 (tripleParses convert X type) ss ts"
        "M = fold group_step ts (subscript_emplace z d r acc)"
    by blast
  with parsed have "list_all2 (tripleParses convert X type) (s # ss) ((z, d, r) # ts)
      \<and> M = fold group_step ((z, d, r) # ts) acc"
    by simp
  then show ?case by blast
qed

lemma composite_loop_prefix:
  "list_all2 (tripleParses convert X type) pre ts \<Longrightarrow>
   composite_loop convert X type (pre @ rest) acc
     = composite_loop convert X type rest (fold group_step ts acc)"
proof (induction pre ts arbitrary: acc rule: list_all2_induct)
  case Nil
  show ?case by simp
next
  case (Cons s t pre ts)
  from Cons.hyps(1) show ?case
    by (auto simp: tripleParses_def Let_def Cons.IH split: option.splits)
qed



subsection \<open>The type classifier\<close>

lemma interpolatable_iff:
  "interpolatable type \<longleftrightarrow>
     type = NumberType \<or> type = ColorType \<or> (\<exists>n. type = Array NumberType (Some n))"
  by (cases type) auto

text \<open>
  C4. For every target type and every configuration object, the classifier returns
  Exponential when there is no "type" member and the target type is interpolatable (Number, Color, or
  a Number array of fixed length), Interval when there is no "type" member and the target
  type is not interpolatable; Invalid for a "type" member that is not a string; and for a
  string: Interval for "interval", Exponential for "exponential" when the target type is
  interpolatable and Invalid when it is not, Categorical for "categorical", Identity for
  "identity", Invalid for any other string.
\<close>

theorem functionType_classification:
  "(isObject value \<and> objectMember value ''type'' = None \<longrightarrow>
      functionType type value = (if interpolatable type then Exponential else Interval))
   \<and> (isObject value \<and> objectMember value ''type'' = Some typeValue
        \<and> toString typeValue = None \<longrightarrow>
      functionType type value = Invalid)
   \<and> (isObject value \<and> objectMember value ''type'' = Some typeValue
        \<and> toString typeValue = Some s \<longrightarrow>
      functionType type value =
        (if s = ''interval'' then Interval
         else if s = ''exponential'' then (if interpolatable type then Exponential else Invalid)
         else if s = ''categorical'' then Categorical
         else if s = ''identity'' then Identity
         else Invalid))
   \<and> (interpolatable type \<longleftrightarrow>
        type = NumberType \<or> type = ColorType \<or> (\<exists>n. type = Array NumberType (Some n)))"
  by (simp add: functionType_def interpolatable_iff)

theorem functionType_classification_witness:
  "isObject (CObject [(''type'', CString ''exponential'')] :: rat convertible)
   \<and> isObject (CObject [(''type'', CNumber 3)] :: rat convertible)
   \<and> isObject (CObject [] :: rat convertible)
   \<and> objectMember (CObject [(''type'', CString ''exponential'')] :: rat convertible) ''type''
     = Some (CString ''exponential'')
   \<and> toString (CString ''exponential'' :: rat convertible) = Some ''exponential''
   \<and> functionType StringType (CObject [(''type'', CString ''exponential'')] :: rat convertible)
       = Invalid
   \<and> functionType (Array NumberType (Some 2))
        (CObject [(''type'', CString ''exponential'')] :: rat convertible) = Exponential
   \<and> objectMember (CObject [(''type'', CNumber 3)] :: rat convertible) ''type'' = Some (CNumber 3)
   \<and> toString (CNumber 3 :: rat convertible) = None
   \<and> functionType NumberType (CObject [(''type'', CNumber 3)] :: rat convertible) = Invalid
   \<and> objectMember (CObject [] :: rat convertible) ''type'' = None
   \<and> functionType ColorType (CObject [] :: rat convertible) = Exponential
   \<and> functionType (Array NumberType None) (CObject [] :: rat convertible) = Interval"
  using functionType_classification
          [of "CObject [(''type'', CString ''exponential'')] :: rat convertible" StringType
              "CString ''exponential''" "''exponential''"]
        functionType_classification
          [of "CObject [(''type'', CString ''exponential'')] :: rat convertible"
              "Array NumberType (Some 2)" "CString ''exponential''" "''exponential''"]
        functionType_classification
          [of "CObject [(''type'', CNumber 3)] :: rat convertible" NumberType "CNumber 3"]
        functionType_classification [of "CObject [] :: rat convertible" ColorType]
        functionType_classification [of "CObject [] :: rat convertible" "Array NumberType None"]
  by simp

subsection \<open>Failures of the stop collection parsers\<close>

lemma convertBranches_loop_halts:
  assumes "\<forall>p. \<not> stopParses convert X type stopValue p"
  shows "convertBranches_loop convert X type (stopValue # post) acc
           = convertBranches_loop convert X type [stopValue] acc'"
    and "convertBranches_loop convert X type (stopValue # post) acc \<noteq> Ok m"
proof -
  from assms have none:
    "\<And>t e. \<not> (isArray stopValue \<and> arrayLength stopValue = 2
        \<and> convert (arrayMember stopValue 0) = Ok t
        \<and> convertLiteral X type (arrayMember stopValue 1) = Ok e)"
    by (simp add: stopParses_def)
  show "convertBranches_loop convert X type (stopValue # post) acc
           = convertBranches_loop convert X type [stopValue] acc'"
    using none by (auto split: result.splits)
  show "convertBranches_loop convert X type (stopValue # post) acc \<noteq> Ok m"
    using none by (auto split: result.splits)
qed

lemma convertBranches_at_stops:
  "objectMember value ''stops'' = Some (CArray (pre @ stopValue # post)) \<Longrightarrow>
   list_all2 (stopParses convert X type) pre ps \<Longrightarrow>
   convertBranches convert X type value
     = convertBranches_loop convert X type (stopValue # post)
         (fold (\<lambda>p. emplace (fst p) (snd p)) ps [])"
  by (simp add: convertBranches_def convertBranches_loop_prefix)

text \<open>
  C8. A stop collection parse fails with "function value must specify stops" when the
  configuration has no "stops" member, with "function stops must be an array" when the
  member is not an array, and with "function must have at least one stop" when the array is
  empty. When the stops before some stop all parse, that stop fails the parse with "function
  stop must be an array" if it is not an array and with "function stop must have two
  elements" if it is an array of another length; and if that stop does not parse at all, the
  parse returns no map and its outcome is the one of the parse cut off after that stop: the
  stops behind the first failing one are not looked at. The double-keyed parser
  \<^verbatim>\<open>convertStops\<close> is the generic parser \<^verbatim>\<open>convertBranches<T>\<close> at float keys, so all
  of this holds for both.
\<close>

theorem stop_collection_errors:
  "(isObject value \<and> objectMember value ''stops'' = None \<longrightarrow>
      convertBranches convert X type value = Failed (Error ''function value must specify stops''))
   \<and> (objectMember value ''stops'' = Some stopsValue \<and> \<not> isArray stopsValue \<longrightarrow>
      convertBranches convert X type value = Failed (Error ''function stops must be an array''))
   \<and> (objectMember value ''stops'' = Some stopsValue \<and> isArray stopsValue
        \<and> arrayLength stopsValue = 0 \<longrightarrow>
      convertBranches convert X type value
        = Failed (Error ''function must have at least one stop''))
   \<and> (objectMember value ''stops'' = Some (CArray (pre @ stopValue # post))
        \<and> list_all2 (stopParses convert X type) pre ps \<longrightarrow>
      (\<not> isArray stopValue \<longrightarrow>
         convertBranches convert X type value = Failed (Error ''function stop must be an array''))
      \<and> (isArray stopValue \<and> arrayLength stopValue \<noteq> 2 \<longrightarrow>
         convertBranches convert X type value
           = Failed (Error ''function stop must have two elements''))
      \<and> ((\<forall>p. \<not> stopParses convert X type stopValue p) \<longrightarrow>
         (\<forall>m. convertBranches convert X type value \<noteq> Ok m)
         \<and> convertBranches convert X type value
             = convertBranches convert X type (CObject [(''stops'', CArray (pre @ [stopValue]))])))
   \<and> convertStops X type value = convertBranches convert_float X type value"
proof -
  have at_stop: "convertBranches convert X type value
      = convertBranches_loop convert X type (stopValue # post)
          (fold (\<lambda>p. emplace (fst p) (snd p)) ps [])"
    if "objectMember value ''stops'' = Some (CArray (pre @ stopValue # post))
        \<and> list_all2 (stopParses convert X type) pre ps"
    using that convertBranches_at_stops [of "value" pre stopValue post convert X type ps]
    by blast
  have not_array: "convertBranches convert X type value
      = Failed (Error ''function stop must be an array'')"
    if "objectMember value ''stops'' = Some (CArray (pre @ stopValue # post))
        \<and> list_all2 (stopParses convert X type) pre ps" and "\<not> isArray stopValue"
    using that by (simp add: at_stop)
  have not_two: "convertBranches convert X type value
      = Failed (Error ''function stop must have two elements'')"
    if "objectMember value ''stops'' = Some (CArray (pre @ stopValue # post))
        \<and> list_all2 (stopParses convert X type) pre ps"
      and "isArray stopValue \<and> arrayLength stopValue \<noteq> 2"
    using that by (simp add: at_stop)
  have no_result: "convertBranches convert X type value \<noteq> Ok m"
    if "objectMember value ''stops'' = Some (CArray (pre @ stopValue # post))
        \<and> list_all2 (stopParses convert X type) pre ps"
      and "\<forall>p. \<not> stopParses convert X type stopValue p" for m
    unfolding at_stop [OF that(1)] using that(2) by (rule convertBranches_loop_halts(2))
  have halts: "convertBranches convert X type value
      = convertBranches convert X type (CObject [(''stops'', CArray (pre @ [stopValue]))])"
    if a: "objectMember value ''stops'' = Some (CArray (pre @ stopValue # post))
        \<and> list_all2 (stopParses convert X type) pre ps"
      and none: "\<forall>p. \<not> stopParses convert X type stopValue p"
  proof -
    have "convertBranches convert X type (CObject [(''stops'', CArray (pre @ [stopValue]))])
        = convertBranches_loop convert X type [stopValue]
            (fold (\<lambda>p. emplace (fst p) (snd p)) ps [])"
      using a convertBranches_at_stops
          [of "CObject [(''stops'', CArray (pre @ [stopValue]))]" pre stopValue "[]"
              convert X type ps]
      by simp
    then show ?thesis
      unfolding at_stop [OF a] using convertBranches_loop_halts(1) [OF none] by simp
  qed
  have missing: "convertBranches convert X type value
      = Failed (Error ''function value must specify stops'')"
    if "isObject value \<and> objectMember value ''stops'' = None"
    using that by (simp add: convertBranches_def)
  have no_array: "convertBranches convert X type value
      = Failed (Error ''function stops must be an array'')"
    if "objectMember value ''stops'' = Some stopsValue \<and> \<not> isArray stopsValue"
    using that by (simp add: convertBranches_def)
  have empty: "convertBranches convert X type value
      = Failed (Error ''function must have at least one stop'')"
    if "objectMember value ''stops'' = Some stopsValue \<and> isArray stopsValue
        \<and> arrayLength stopsValue = 0"
    using that by (simp add: convertBranches_def)
  show ?thesis
  proof (intro conjI impI allI)
    fix m
    assume "objectMember value ''stops'' = Some (CArray (pre @ stopValue # post))
        \<and> list_all2 (stopParses convert X type) pre ps"
      and "\<forall>p. \<not> stopParses convert X type stopValue p"
    then show "convertBranches convert X type value \<noteq> Ok m" by (rule no_result)
  next
    assume "objectMember value ''stops'' = Some (CArray (pre @ stopValue # post))
        \<and> list_all2 (stopParses convert X type) pre ps"
      and "\<forall>p. \<not> stopParses convert X type stopValue p"
    then show "convertBranches convert X type value
        = convertBranches convert X type (CObject [(''stops'', CArray (pre @ [stopValue]))])"
      by (rule halts)
  next
    show "convertStops X type value = convertBranches convert_float X type value"
      by (rule convertStops_eq)
  qed (blast intro: missing no_array empty not_array not_two)+
qed

theorem stop_collection_errors_witness:
  "isObject (CObject [] :: rat convertible)
   \<and> objectMember (CObject [] :: rat convertible) ''stops'' = None
   \<and> convertBranches convert_bool example_externals StringType (CObject [])
       = Failed (Error ''function value must specify stops'')
   \<and> objectMember (CObject [(''stops'', CNumber 1)] :: rat convertible) ''stops''
       = Some (CNumber 1)
   \<and> \<not> isArray (CNumber 1 :: rat convertible)
   \<and> convertBranches convert_bool example_externals StringType (CObject [(''stops'', CNumber 1)])
       = Failed (Error ''function stops must be an array'')
   \<and> objectMember (CObject [(''stops'', CArray [])] :: rat convertible) ''stops''
       = Some (CArray [])
   \<and> arrayLength (CArray [] :: rat convertible) = 0
   \<and> convertBranches convert_bool example_externals StringType (CObject [(''stops'', CArray [])])
       = Failed (Error ''function must have at least one stop'')
   \<and> objectMember broken_stops ''stops''
       = Some (CArray ([CArray [CNumber 1, CString ''a'']] @ CString ''oops''
                        # [CArray [CNumber 2, CString ''b'']]))
   \<and> list_all2 (stopParses convert_float example_externals StringType)
        [CArray [CNumber 1, CString ''a'']] [(1, Literal (VString ''a''))]
   \<and> \<not> isArray (CString ''oops'' :: rat convertible)
   \<and> convertBranches convert_float example_externals StringType broken_stops
       = Failed (Error ''function stop must be an array'')
   \<and> convertStops example_externals StringType broken_stops
       = Failed (Error ''function stop must be an array'')
   \<and> (\<forall>p. \<not> stopParses convert_float example_externals StringType (CString ''oops'') p)
   \<and> (\<forall>m. convertBranches convert_float example_externals StringType broken_stops \<noteq> Ok m)
   \<and> convertBranches convert_float example_externals StringType broken_stops
       = convertBranches convert_float example_externals StringType
           (CObject [(''stops'', CArray ([CArray [CNumber 1, CString ''a'']] @ [CString ''oops'']))])
   \<and> objectMember long_stop ''stops''
       = Some (CArray ([] @ CArray [CNumber 1, CString ''a'', CString ''b''] # []))
   \<and> arrayLength (CArray [CNumber 1, CString ''a'', CString ''b''] :: rat convertible) \<noteq> 2
   \<and> convertBranches convert_float example_externals StringType long_stop
       = Failed (Error ''function stop must have two elements'')"
  using stop_collection_errors
          [of "CObject [] :: rat convertible" convert_bool example_externals StringType]
        stop_collection_errors
          [of "CObject [(''stops'', CNumber 1)] :: rat convertible" convert_bool
              example_externals StringType "CNumber 1"]
        stop_collection_errors
          [of "CObject [(''stops'', CArray [])] :: rat convertible" convert_bool
              example_externals StringType "CArray []"]
        stop_collection_errors
          [of broken_stops convert_float example_externals StringType _
              "[CArray [CNumber 1, CString ''a'']]" "CString ''oops''"
              "[CArray [CNumber 2, CString ''b'']]" "[(1, Literal (VString ''a''))]"]
        stop_collection_errors
          [of long_stop convert_float example_externals StringType _
              "[]" "CArray [CNumber 1, CString ''a'', CString ''b'']" "[]" "[]"]
  by (simp add: broken_stops_def long_stop_def stopParses_def eval_defs)

subsection \<open>Duplicate keys\<close>

lemma convertBranches_first_wins:
  assumes "convertBranches convert X type value = Ok m"
  shows "\<exists>ss ps. objectMember value ''stops'' = Some (CArray ss)
           \<and> list_all2 (stopParses convert X type) ss ps
           \<and> distinct (map fst m) \<and> (\<forall>k. map_of m k = first_seen ps k)"
proof -
  from assms obtain ss where
    stops: "objectMember value ''stops'' = Some (CArray ss)"
    and loop: "convertBranches_loop convert X type ss [] = Ok m"
    by (auto simp: convertBranches_def isArray_iff split: option.splits if_splits)
  from convertBranches_loop_Ok [OF loop] obtain ps where
    ps: "list_all2 (stopParses convert X type) ss ps"
    and m: "m = fold (\<lambda>p. emplace (fst p) (snd p)) ps []"
    by blast
  from m have "sorted_wrt (<) (map fst m)"
    using sorted_fold_emplace [of "[]" ps] by simp
  then have "distinct (map fst m)" by (rule sorted_less_distinct)
  moreover from m have "\<forall>k. map_of m k = first_seen ps k"
    using map_of_fold_emplace [of "[]" ps] by (simp add: map_of_first_seen)
  ultimately show ?thesis using stops ps by blast
qed

lemma composite_loop_first_wins:
  assumes "composite_loop convert X type ss [] = Ok buckets"
  shows "\<exists>ts. list_all2 (tripleParses convert X type) ss ts
           \<and> distinct (map fst buckets)
           \<and> (\<forall>z b. (z, b) \<in> set buckets \<longrightarrow>
                distinct (map fst b)
                \<and> (\<forall>k. map_of b k = first_seen (map snd (filter (\<lambda>t. fst t = z) ts)) k))"
proof -
  from composite_loop_Ok [OF assms] obtain ts where
    ts: "list_all2 (tripleParses convert X type) ss ts"
    and buckets: "buckets = fold group_step ts []"
    by blast
  have empty: "\<forall>z. sorted_wrt (<) (map fst (bucket ([] :: ('a \<times> ('b \<times> ('a, 'c) expression) list) list) z))"
    by (simp add: bucket_def)
  have sorted: "sorted_wrt (<) (map fst buckets)"
    unfolding buckets using sorted_fold_subscript_emplace [of "[]" ts] by simp
  then have distinct: "distinct (map fst buckets)" by (rule sorted_less_distinct)
  have "distinct (map fst b) \<and> (\<forall>k. map_of b k = first_seen (map snd (filter (\<lambda>t. fst t = z) ts)) k)"
    if "(z, b) \<in> set buckets" for z b
  proof -
    from that distinct have "map_of buckets z = Some b" by simp
    then have b: "bucket buckets z = b" by (simp add: bucket_def)
    have "sorted_wrt (<) (map fst (bucket buckets z))"
      unfolding buckets using bucket_fold_sorted [OF _ empty, of ts z] by simp
    with b have "distinct (map fst b)" by (simp add: sorted_less_distinct)
    moreover have "map_of (bucket buckets z) = map_of (map snd (filter (\<lambda>t. fst t = z) ts))"
      unfolding buckets using map_of_bucket_fold [OF _ empty, of ts z] by (simp add: bucket_def)
    with b have "\<forall>k. map_of b k = first_seen (map snd (filter (\<lambda>t. fst t = z) ts)) k"
      by (simp add: map_of_first_seen)
    ultimately show ?thesis by simp
  qed
  with ts distinct show ?thesis by blast
qed

lemma convertBranches_all_parse:
  assumes "objectMember value ''stops'' = Some (CArray ss)" and "ss \<noteq> []"
    and "list_all2 (stopParses convert X type) ss ps"
  shows "convertBranches convert X type value = Ok (fold (\<lambda>p. emplace (fst p) (snd p)) ps [])"
  using assms convertBranches_loop_prefix [of convert X type ss ps "[]" "[]"]
  by (simp add: convertBranches_def)

lemma composite_loop_all_parse:
  assumes "list_all2 (tripleParses convert X type) ss ts"
  shows "composite_loop convert X type ss [] = Ok (fold group_step ts [])"
  using composite_loop_prefix [OF assms, of "[]" "[]"] by simp

text \<open>
  C3. A stop collection whose stops all parse is parsed to a map, whether or not two stops
  have the same key; and when a stop collection is parsed to a map, the map has one entry
  per key, and the entry of a key holds the expression of the first stop in the array that
  has this key: a later stop with the same key leaves the map as it is. This holds for the
  generic parser \<^verbatim>\<open>convertBranches<T>\<close> at every key type, for the double-keyed parser
  \<^verbatim>\<open>convertStops\<close>, and for every per-zoom map that the first loop of the composite
  converter builds. The stops \<^verbatim>\<open>[[1,"a"],[1,"b"]]\<close> yield the map whose only entry is
  \<open>"a"\<close> at key 1.
\<close>

theorem first_stop_wins:
  "(objectMember value ''stops'' = Some (CArray ss) \<and> ss \<noteq> []
      \<and> list_all2 (stopParses convert X type) ss ps \<longrightarrow>
      (\<exists>m. convertBranches convert X type value = Ok m))
   \<and> (convertBranches convert X type value = Ok m \<longrightarrow>
      (\<exists>ss ps. objectMember value ''stops'' = Some (CArray ss)
         \<and> list_all2 (stopParses convert X type) ss ps
         \<and> distinct (map fst m) \<and> (\<forall>k. map_of m k = first_seen ps k)))
   \<and> (objectMember value ''stops'' = Some (CArray ss) \<and> ss \<noteq> []
      \<and> list_all2 (stopParses convert_float X type) ss ps' \<longrightarrow>
      (\<exists>m. convertStops X type value = Ok m))
   \<and> (convertStops X type value = Ok m' \<longrightarrow>
      (\<exists>ss ps. objectMember value ''stops'' = Some (CArray ss)
         \<and> list_all2 (stopParses convert_float X type) ss ps
         \<and> distinct (map fst m') \<and> (\<forall>k. map_of m' k = first_seen ps k)))
   \<and> (list_all2 (tripleParses convert' X type) stops ts \<longrightarrow>
      (\<exists>buckets. composite_loop convert' X type stops [] = Ok buckets))
   \<and> (composite_loop convert' X type stops [] = Ok buckets \<longrightarrow>
      (\<exists>ts. list_all2 (tripleParses convert' X type) stops ts
         \<and> distinct (map fst buckets)
         \<and> (\<forall>z b. (z, b) \<in> set buckets \<longrightarrow>
              distinct (map fst b)
              \<and> (\<forall>k. map_of b k = first_seen (map snd (filter (\<lambda>t. fst t = z) ts)) k))))
   \<and> convertStops example_externals StringType duplicate_stops = Ok [(1, Literal (VString ''a''))]
   \<and> convertBranches (convert_int64 example_externals) example_externals StringType duplicate_stops
       = Ok [(1, Literal (VString ''a''))]
   \<and> composite_loop convert_double example_externals StringType duplicate_composite_stops []
       = Ok [(0, [(1, Literal (VString ''a''))])]"
proof (intro conjI impI)
  assume "objectMember value ''stops'' = Some (CArray ss) \<and> ss \<noteq> []
      \<and> list_all2 (stopParses convert X type) ss ps"
  then show "\<exists>m. convertBranches convert X type value = Ok m"
    using convertBranches_all_parse [of "value" ss convert X type ps] by blast
next
  assume "convertBranches convert X type value = Ok m"
  then show "\<exists>ss ps. objectMember value ''stops'' = Some (CArray ss)
         \<and> list_all2 (stopParses convert X type) ss ps
         \<and> distinct (map fst m) \<and> (\<forall>k. map_of m k = first_seen ps k)"
    by (rule convertBranches_first_wins)
next
  assume "objectMember value ''stops'' = Some (CArray ss) \<and> ss \<noteq> []
      \<and> list_all2 (stopParses convert_float X type) ss ps'"
  then show "\<exists>m. convertStops X type value = Ok m"
    unfolding convertStops_eq
    using convertBranches_all_parse [of "value" ss convert_float X type ps'] by blast
next
  assume "convertStops X type value = Ok m'"
  then have "convertBranches convert_float X type value = Ok m'"
    by (simp add: convertStops_eq)
  then show "\<exists>ss ps. objectMember value ''stops'' = Some (CArray ss)
         \<and> list_all2 (stopParses convert_float X type) ss ps
         \<and> distinct (map fst m') \<and> (\<forall>k. map_of m' k = first_seen ps k)"
    by (rule convertBranches_first_wins)
next
  assume "list_all2 (tripleParses convert' X type) stops ts"
  then show "\<exists>buckets. composite_loop convert' X type stops [] = Ok buckets"
    using composite_loop_all_parse [of convert' X type stops ts] by blast
next
  assume "composite_loop convert' X type stops [] = Ok buckets"
  then show "\<exists>ts. list_all2 (tripleParses convert' X type) stops ts
         \<and> distinct (map fst buckets)
         \<and> (\<forall>z b. (z, b) \<in> set buckets \<longrightarrow>
              distinct (map fst b)
              \<and> (\<forall>k. map_of b k = first_seen (map snd (filter (\<lambda>t. fst t = z) ts)) k))"
    by (rule composite_loop_first_wins)
next
  show "convertStops example_externals StringType duplicate_stops = Ok [(1, Literal (VString ''a''))]"
    by (simp add: duplicate_stops_def eval_defs)
next
  show "convertBranches (convert_int64 example_externals) example_externals StringType duplicate_stops
       = Ok [(1, Literal (VString ''a''))]"
    by (simp add: duplicate_stops_def eval_defs)
next
  show "composite_loop convert_double example_externals StringType duplicate_composite_stops []
       = Ok [(0, [(1, Literal (VString ''a''))])]"
    by (simp add: duplicate_composite_stops_def eval_defs)
qed

theorem first_stop_wins_witness:
  "objectMember duplicate_stops ''stops''
     = Some (CArray [CArray [CNumber 1, CString ''a''], CArray [CNumber 1, CString ''b'']])
   \<and> list_all2 (stopParses (convert_int64 example_externals) example_externals StringType)
        [CArray [CNumber 1, CString ''a''], CArray [CNumber 1, CString ''b'']]
        [(1, Literal (VString ''a'')), (1, Literal (VString ''b''))]
   \<and> list_all2 (stopParses convert_float example_externals StringType)
        [CArray [CNumber 1, CString ''a''], CArray [CNumber 1, CString ''b'']]
        [(1, Literal (VString ''a'')), (1, Literal (VString ''b''))]
   \<and> list_all2 (tripleParses convert_double example_externals StringType)
        duplicate_composite_stops
        [(0, 1, Literal (VString ''a'')), (0, 1, Literal (VString ''b''))]
   \<and> (\<exists>m. convertBranches (convert_int64 example_externals) example_externals StringType
              duplicate_stops = Ok m
         \<and> (\<exists>ss ps. objectMember duplicate_stops ''stops'' = Some (CArray ss)
               \<and> list_all2
                    (stopParses (convert_int64 example_externals) example_externals StringType)
                    ss ps
               \<and> distinct (map fst m) \<and> (\<forall>k. map_of m k = first_seen ps k)))
   \<and> (\<exists>m. convertStops example_externals StringType duplicate_stops = Ok m
         \<and> (\<exists>ss ps. objectMember duplicate_stops ''stops'' = Some (CArray ss)
               \<and> list_all2 (stopParses convert_float example_externals StringType) ss ps
               \<and> distinct (map fst m) \<and> (\<forall>k. map_of m k = first_seen ps k)))
   \<and> (\<exists>buckets. composite_loop convert_double example_externals StringType
                    duplicate_composite_stops [] = Ok buckets
         \<and> (\<exists>ts. list_all2 (tripleParses convert_double example_externals StringType)
                    duplicate_composite_stops ts
               \<and> distinct (map fst buckets)
               \<and> (\<forall>z b. (z, b) \<in> set buckets \<longrightarrow>
                    distinct (map fst b)
                    \<and> (\<forall>k. map_of b k
                           = first_seen (map snd (filter (\<lambda>t. fst t = z) ts)) k))))"
proof -
  let ?ss = "[CArray [CNumber 1, CString ''a''], CArray [CNumber 1, CString ''b'']]
               :: rat convertible list"
  let ?ps = "[(1, Literal (VString ''a'')), (1, Literal (VString ''b''))]
               :: (int \<times> (rat, string) expression) list"
  let ?ps' = "[(1, Literal (VString ''a'')), (1, Literal (VString ''b''))]
               :: (rat \<times> (rat, string) expression) list"
  let ?ts = "[(0, 1, Literal (VString ''a'')), (0, 1, Literal (VString ''b''))]
               :: (rat \<times> rat \<times> (rat, string) expression) list"
  have s: "objectMember duplicate_stops ''stops'' = Some (CArray ?ss)"
    by (simp add: duplicate_stops_def)
  have p1: "list_all2 (stopParses (convert_int64 example_externals) example_externals StringType)
      ?ss ?ps"
    by (simp add: stopParses_def eval_defs)
  have p2: "list_all2 (stopParses convert_float example_externals StringType) ?ss ?ps'"
    by (simp add: stopParses_def eval_defs)
  have p3: "list_all2 (tripleParses convert_double example_externals StringType)
      duplicate_composite_stops ?ts"
    by (simp add: duplicate_composite_stops_def tripleParses_def eval_defs)
  have w: "\<And>m m' buckets.
    (objectMember duplicate_stops ''stops'' = Some (CArray ?ss) \<and> ?ss \<noteq> []
      \<and> list_all2 (stopParses (convert_int64 example_externals) example_externals StringType)
           ?ss ?ps \<longrightarrow>
      (\<exists>m. convertBranches (convert_int64 example_externals) example_externals StringType
         duplicate_stops = Ok m))
   \<and> (convertBranches (convert_int64 example_externals) example_externals StringType
         duplicate_stops = Ok m \<longrightarrow>
      (\<exists>ss ps. objectMember duplicate_stops ''stops'' = Some (CArray ss)
         \<and> list_all2 (stopParses (convert_int64 example_externals) example_externals StringType)
              ss ps
         \<and> distinct (map fst m) \<and> (\<forall>k. map_of m k = first_seen ps k)))
   \<and> (objectMember duplicate_stops ''stops'' = Some (CArray ?ss) \<and> ?ss \<noteq> []
      \<and> list_all2 (stopParses convert_float example_externals StringType) ?ss ?ps' \<longrightarrow>
      (\<exists>m. convertStops example_externals StringType duplicate_stops = Ok m))
   \<and> (convertStops example_externals StringType duplicate_stops = Ok m' \<longrightarrow>
      (\<exists>ss ps. objectMember duplicate_stops ''stops'' = Some (CArray ss)
         \<and> list_all2 (stopParses convert_float example_externals StringType) ss ps
         \<and> distinct (map fst m') \<and> (\<forall>k. map_of m' k = first_seen ps k)))
   \<and> (list_all2 (tripleParses convert_double example_externals StringType)
         duplicate_composite_stops ?ts \<longrightarrow>
      (\<exists>buckets. composite_loop convert_double example_externals StringType
         duplicate_composite_stops [] = Ok buckets))
   \<and> (composite_loop convert_double example_externals StringType duplicate_composite_stops []
         = Ok buckets \<longrightarrow>
      (\<exists>ts. list_all2 (tripleParses convert_double example_externals StringType)
                duplicate_composite_stops ts
         \<and> distinct (map fst buckets)
         \<and> (\<forall>z b. (z, b) \<in> set buckets \<longrightarrow>
              distinct (map fst b)
              \<and> (\<forall>k. map_of b k = first_seen (map snd (filter (\<lambda>t. fst t = z) ts)) k))))"
    using first_stop_wins
      [of duplicate_stops ?ss "convert_int64 example_externals" example_externals StringType
          ?ps _ ?ps' _ convert_double duplicate_composite_stops ?ts]
    by blast
  have ne: "?ss \<noteq> []" by simp
  from w s ne p1 obtain m where
    m: "convertBranches (convert_int64 example_externals) example_externals StringType
          duplicate_stops = Ok m"
    by blast
  from w s ne p2 obtain m' where
    m': "convertStops example_externals StringType duplicate_stops = Ok m'"
    by blast
  from w p3 obtain buckets where
    buckets: "composite_loop convert_double example_externals StringType
                duplicate_composite_stops [] = Ok buckets"
    by blast
  from w [of m m' buckets] m m' buckets s p1 p2 p3 show ?thesis
    by blast
qed

subsection \<open>Assertions of the literal converter\<close>

text \<open>
  C5, as stated, fails for array targets: a value that is not an array, or not of the
  declared length, is reported through the error sink before the item type is looked at.
\<close>

theorem literal_array_shape_counterexample:
  "convertLiteral example_externals (Array BooleanType None) (CString ''x'')
     = Failed (Error ''value must be an array'')
   \<and> convertLiteral example_externals (Array BooleanType None) (CString ''x'') \<noteq> AssertionFailure"
  by (simp add: convertLiteral_def)

text \<open>
  C5, amended. For a target type of Null, Object, Error, Value or Collator the literal
  converter reaches \<^verbatim>\<open>assert(false)\<close> whatever the value is: it neither returns an
  expression nor writes the error sink. For an Array target whose item type is neither
  Number nor String it reaches \<^verbatim>\<open>assert(false)\<close> when the value is an array and, if the
  target declares a length, has that length; a value that is not an array fails with "value
  must be an array" and an array of another length fails with "value must be an array of
  length N".
\<close>

theorem literal_assertions:
  "(type = NullType \<or> type = ObjectType \<or> type = ErrorType \<or> type = ValueType
      \<or> type = CollatorType \<longrightarrow>
      convertLiteral X type value = AssertionFailure)
   \<and> (itemType \<noteq> NumberType \<and> itemType \<noteq> StringType \<longrightarrow>
      convertLiteral X (Array itemType N) value =
        (if \<not> isArray value then Failed (Error ''value must be an array'')
         else if N \<noteq> None \<and> arrayLength value \<noteq> the N
         then Failed (Error (''value must be an array of length '' @ toString_size (the N)))
         else AssertionFailure))"
  by (cases itemType) (auto simp: convertLiteral_def)

theorem literal_assertions_witness:
  "convertLiteral example_externals NullType (CArray [CBool True, CBool False]) = AssertionFailure
   \<and> convertLiteral example_externals ObjectType (CArray []) = AssertionFailure
   \<and> convertLiteral example_externals ErrorType (CArray [CBool True]) = AssertionFailure
   \<and> convertLiteral example_externals ValueType (CString ''x'') = AssertionFailure
   \<and> convertLiteral example_externals CollatorType CNull = AssertionFailure
   \<and> BooleanType \<noteq> NumberType \<and> BooleanType \<noteq> StringType
   \<and> convertLiteral example_externals (Array BooleanType (Some 2)) (CArray [CBool True, CBool False])
       = AssertionFailure
   \<and> convertLiteral example_externals (Array BooleanType None) (CArray [])
       = AssertionFailure
   \<and> convertLiteral example_externals (Array BooleanType (Some 2)) (CArray [CBool True])
       = Failed (Error ''value must be an array of length 2'')
   \<and> convertLiteral example_externals (Array BooleanType None) (CString ''x'')
       = Failed (Error ''value must be an array'')"
  using literal_assertions [of NullType example_externals "CArray [CBool True, CBool False]"
          BooleanType "Some 2"]
        literal_assertions [of ObjectType example_externals "CArray []" BooleanType None]
        literal_assertions [of ErrorType example_externals "CArray [CBool True]" BooleanType
          "Some 2"]
        literal_assertions [of ValueType example_externals "CString ''x''" BooleanType None]
        literal_assertions [of CollatorType example_externals CNull BooleanType None]
  by simp

subsection \<open>The base parameter\<close>

text \<open>
  C7. The base parameter parser returns 1.0 when there is no "base" member, the number
  when the member is coercible to one, and fails with "function base must be a number"
  when it is not. A camera function of shape Exponential whose stops parse is converted
  to the interpolation over zoom with the exponential interpolator of the parsed base: base
  2 for \<^verbatim>\<open>"base": 2\<close>, base 1 when "base" is omitted.
\<close>

theorem base_parameter:
  "(isObject value \<and> objectMember value ''base'' = None \<longrightarrow> convertBase value = Ok 1)
   \<and> (objectMember value ''base'' = Some baseValue \<and> toNumber baseValue = Some b \<longrightarrow>
      convertBase value = Ok b)
   \<and> (objectMember value ''base'' = Some baseValue \<and> toNumber baseValue = None \<longrightarrow>
      convertBase value = Failed (Error ''function base must be a number''))
   \<and> (isObject value \<and> functionType type value = Exponential
        \<and> convertStops X type value = Ok stops \<and> convertBase value = Ok base \<longrightarrow>
      convertCameraFunctionToExpression X type value
        = Ok (Interpolate type (ExponentialInterpolator base) Zoom stops))
   \<and> convertCameraFunctionToExpression example_externals NumberType camera_base_2
       = Ok (Interpolate NumberType (ExponentialInterpolator 2) Zoom
              [(0, Literal (VNumber 1)), (10, Literal (VNumber 4))])
   \<and> convertCameraFunctionToExpression example_externals NumberType camera_no_base
       = Ok (Interpolate NumberType (ExponentialInterpolator 1) Zoom
              [(0, Literal (VNumber 1)), (10, Literal (VNumber 4))])"
proof -
  have camera: "convertCameraFunctionToExpression X type value
        = Ok (Interpolate type (ExponentialInterpolator base) Zoom stops)"
    if "isObject value \<and> functionType type value = Exponential
        \<and> convertStops X type value = Ok stops \<and> convertBase value = Ok base"
    using that functionType_Exponential [of type "value"]
    by (simp add: convertCameraFunctionToExpression_def convertExponentialFunction_def
        interpolate_def createInterpolate_def exponential_def zoom_def)
  have with_base: "convertCameraFunctionToExpression example_externals NumberType camera_base_2
       = Ok (Interpolate NumberType (ExponentialInterpolator 2) Zoom
              [(0, Literal (VNumber 1)), (10, Literal (VNumber 4))])"
    by (simp add: camera_base_2_def convertCameraFunctionToExpression_def functionType_def
        convertExponentialFunction_def convertBase_def interpolate_def createInterpolate_def
        exponential_def zoom_def eval_defs)
  have without_base: "convertCameraFunctionToExpression example_externals NumberType camera_no_base
       = Ok (Interpolate NumberType (ExponentialInterpolator 1) Zoom
              [(0, Literal (VNumber 1)), (10, Literal (VNumber 4))])"
    by (simp add: camera_no_base_def convertCameraFunctionToExpression_def functionType_def
        convertExponentialFunction_def convertBase_def interpolate_def createInterpolate_def
        exponential_def zoom_def eval_defs)
  show ?thesis
    using camera with_base without_base by (simp add: convertBase_def)
qed

theorem base_parameter_witness:
  "isObject camera_no_base
   \<and> objectMember camera_no_base ''base'' = None
   \<and> convertBase camera_no_base = Ok 1
   \<and> objectMember camera_base_2 ''base'' = Some (CNumber 2)
   \<and> toNumber (CNumber 2 :: rat convertible) = Some 2
   \<and> convertBase camera_base_2 = Ok 2
   \<and> objectMember (CObject [(''base'', CString ''2'')] :: rat convertible) ''base''
       = Some (CString ''2'')
   \<and> toNumber (CString ''2'' :: rat convertible) = None
   \<and> convertBase (CObject [(''base'', CString ''2'')] :: rat convertible)
       = Failed (Error ''function base must be a number'')
   \<and> isObject camera_base_2
   \<and> functionType NumberType camera_base_2 = Exponential
   \<and> convertStops example_externals NumberType camera_base_2
       = Ok [(0, Literal (VNumber 1)), (10, Literal (VNumber 4))]
   \<and> convertCameraFunctionToExpression example_externals NumberType camera_base_2
       = Ok (Interpolate NumberType (ExponentialInterpolator 2) Zoom
              [(0, Literal (VNumber 1)), (10, Literal (VNumber 4))])"
  using base_parameter
          [of camera_no_base "CNumber 2" 2 NumberType example_externals
              "[(0, Literal (VNumber 1)), (10, Literal (VNumber 4))]" 1]
        base_parameter
          [of camera_base_2 "CNumber 2" 2 NumberType example_externals
              "[(0, Literal (VNumber 1)), (10, Literal (VNumber 4))]" 2]
        base_parameter
          [of "CObject [(''base'', CString ''2'')] :: rat convertible" "CString ''2''" 2
              NumberType example_externals "[]" 1]
  by (simp add: camera_base_2_def camera_no_base_def functionType_def eval_defs)

subsection \<open>The camera function converter\<close>

text \<open>
  C9. The camera function converter fails with "function must be an object" when its
  input is not an object, and with "unsupported function type" when its input is an object
  that the classifier finds to be Categorical, Identity or Invalid.
\<close>

theorem camera_unsupported:
  "(\<not> isObject value \<longrightarrow>
      convertCameraFunctionToExpression X type value = Failed (Error ''function must be an object''))
   \<and> (isObject value
        \<and> (functionType type value = Categorical \<or> functionType type value = Identity
             \<or> functionType type value = Invalid) \<longrightarrow>
      convertCameraFunctionToExpression X type value = Failed (Error ''unsupported function type''))"
  by (auto simp: convertCameraFunctionToExpression_def)

theorem camera_unsupported_witness:
  "\<not> isObject (CArray [] :: rat convertible)
   \<and> convertCameraFunctionToExpression example_externals NumberType (CArray [])
       = Failed (Error ''function must be an object'')
   \<and> isObject (CObject [(''type'', CString ''categorical'')] :: rat convertible)
   \<and> functionType NumberType (CObject [(''type'', CString ''categorical'')] :: rat convertible)
       = Categorical
   \<and> convertCameraFunctionToExpression example_externals NumberType
        (CObject [(''type'', CString ''categorical'')])
       = Failed (Error ''unsupported function type'')
   \<and> functionType NumberType (CObject [(''type'', CString ''identity'')] :: rat convertible)
       = Identity
   \<and> convertCameraFunctionToExpression example_externals NumberType
        (CObject [(''type'', CString ''identity'')])
       = Failed (Error ''unsupported function type'')
   \<and> functionType StringType (CObject [(''type'', CString ''exponential'')] :: rat convertible)
       = Invalid
   \<and> convertCameraFunctionToExpression example_externals StringType
        (CObject [(''type'', CString ''exponential'')])
       = Failed (Error ''unsupported function type'')"
  using camera_unsupported [of "CArray [] :: rat convertible" example_externals NumberType]
        camera_unsupported
          [of "CObject [(''type'', CString ''categorical'')] :: rat convertible"
              example_externals NumberType]
        camera_unsupported
          [of "CObject [(''type'', CString ''identity'')] :: rat convertible"
              example_externals NumberType]
        camera_unsupported
          [of "CObject [(''type'', CString ''exponential'')] :: rat convertible"
              example_externals StringType]
  by (simp add: functionType_def)

subsection \<open>Domain inference of categorical functions\<close>

text \<open>
  C2. When the "stops" member of a categorical function is an array whose first stop is
  an array of two elements, the key of that stop decides the domain: if it coerces to a
  boolean, the stops are parsed with boolean keys and built into a case expression;
  otherwise, if it coerces to a number, they are parsed with \<^verbatim>\<open>int64_t\<close> keys and built
  into an integer match; otherwise, if it coerces to a string, they are parsed with string
  keys and built into a string match; otherwise the conversion fails with "stop domain
  value must be a number, string, or boolean". A first key of \<^verbatim>\<open>true\<close> gives the boolean
  domain, \<^verbatim>\<open>5\<close> the integer domain, \<^verbatim>\<open>"x"\<close> the string domain. The order decides
  for a key that coerces in more than one way: a key that coerces to \<^verbatim>\<open>true\<close> and to
  \<^verbatim>\<open>1\<close> gives the boolean domain, a key that coerces to \<^verbatim>\<open>5\<close> and to \<^verbatim>\<open>"5"\<close>
  the integer domain, and a key that coerces to \<^verbatim>\<open>false\<close>, to \<^verbatim>\<open>0\<close> and to
  \<^verbatim>\<open>"no"\<close> the boolean domain.
\<close>

theorem categorical_domain_inference:
  "(objectMember value ''stops'' = Some (CArray (CArray [key, output] # rest)) \<longrightarrow>
      (toBool key \<noteq> None \<longrightarrow>
         convertCategoricalFunction X type value property =
           (case convertBranches convert_bool X type value of
              Ok branches \<Rightarrow> Ok (categorical_bool type property branches)
            | Failed e \<Rightarrow> Failed e
            | AssertionFailure \<Rightarrow> AssertionFailure))
      \<and> (toBool key = None \<and> toNumber key \<noteq> None \<longrightarrow>
         convertCategoricalFunction X type value property =
           (case convertBranches (convert_int64 X) X type value of
              Ok branches \<Rightarrow> Ok (categorical MatchInt64 type property branches)
            | Failed e \<Rightarrow> Failed e
            | AssertionFailure \<Rightarrow> AssertionFailure))
      \<and> (toBool key = None \<and> toNumber key = None \<and> toString key \<noteq> None \<longrightarrow>
         convertCategoricalFunction X type value property =
           (case convertBranches convert_string X type value of
              Ok branches \<Rightarrow> Ok (categorical MatchString type property branches)
            | Failed e \<Rightarrow> Failed e
            | AssertionFailure \<Rightarrow> AssertionFailure))
      \<and> (toBool key = None \<and> toNumber key = None \<and> toString key = None \<longrightarrow>
         convertCategoricalFunction X type value property =
           Failed (Error ''stop domain value must be a number, string, or boolean'')))
   \<and> convertCategoricalFunction example_externals StringType boolean_stops ''p''
       = Ok (Case StringType [(Get (Literal (VString ''p'')), Literal (VString ''A''))]
              (ErrorExpression ''replaced with default''))
   \<and> convertCategoricalFunction example_externals StringType integer_stops ''p''
       = Ok (MatchInt64 StringType (Get (Literal (VString ''p'')))
              [(5, Literal (VString ''A''))] (ErrorExpression ''replaced with default''))
   \<and> convertCategoricalFunction example_externals StringType string_stops ''p''
       = Ok (MatchString StringType (Get (Literal (VString ''p'')))
              [(''x'', Literal (VString ''A''))] (ErrorExpression ''replaced with default''))
   \<and> convertCategoricalFunction example_externals StringType null_stops ''p''
       = Failed (Error ''stop domain value must be a number, string, or boolean'')
   \<and> convertCategoricalFunction example_externals StringType boolean_number_stops ''p''
       = Ok (Case StringType [(Get (Literal (VString ''p'')), Literal (VString ''A''))]
              (ErrorExpression ''replaced with default''))
   \<and> convertCategoricalFunction example_externals StringType number_string_stops ''p''
       = Ok (MatchInt64 StringType (Get (Literal (VString ''p'')))
              [(5, Literal (VString ''A''))] (ErrorExpression ''replaced with default''))
   \<and> convertCategoricalFunction example_externals StringType every_way_stops ''p''
       = Ok (Case StringType
              [(Get (Literal (VString ''p'')), ErrorExpression ''replaced with default'')]
              (Literal (VString ''A'')))"
proof -
  have general: "convertCategoricalFunction X type value property =
      (if toBool key \<noteq> None then
         (case convertBranches convert_bool X type value of
            Ok branches \<Rightarrow> Ok (categorical_bool type property branches)
          | Failed e \<Rightarrow> Failed e
          | AssertionFailure \<Rightarrow> AssertionFailure)
       else if toNumber key \<noteq> None then
         (case convertBranches (convert_int64 X) X type value of
            Ok branches \<Rightarrow> Ok (categorical MatchInt64 type property branches)
          | Failed e \<Rightarrow> Failed e
          | AssertionFailure \<Rightarrow> AssertionFailure)
       else if toString key \<noteq> None then
         (case convertBranches convert_string X type value of
            Ok branches \<Rightarrow> Ok (categorical MatchString type property branches)
          | Failed e \<Rightarrow> Failed e
          | AssertionFailure \<Rightarrow> AssertionFailure)
       else Failed (Error ''stop domain value must be a number, string, or boolean''))"
    if "objectMember value ''stops'' = Some (CArray (CArray [key, output] # rest))"
    using that by (simp add: convertCategoricalFunction_def)
  have ex1: "convertCategoricalFunction example_externals StringType boolean_stops ''p''
       = Ok (Case StringType [(Get (Literal (VString ''p'')), Literal (VString ''A''))]
              (ErrorExpression ''replaced with default''))"
    by (simp add: boolean_stops_def categorical_defs eval_defs)
  have ex2: "convertCategoricalFunction example_externals StringType integer_stops ''p''
       = Ok (MatchInt64 StringType (Get (Literal (VString ''p'')))
              [(5, Literal (VString ''A''))] (ErrorExpression ''replaced with default''))"
    by (simp add: integer_stops_def categorical_defs eval_defs)
  have ex3: "convertCategoricalFunction example_externals StringType string_stops ''p''
       = Ok (MatchString StringType (Get (Literal (VString ''p'')))
              [(''x'', Literal (VString ''A''))] (ErrorExpression ''replaced with default''))"
    by (simp add: string_stops_def categorical_defs eval_defs)
  have ex4: "convertCategoricalFunction example_externals StringType null_stops ''p''
       = Failed (Error ''stop domain value must be a number, string, or boolean'')"
    by (simp add: null_stops_def categorical_defs eval_defs)
  have ex5: "convertCategoricalFunction example_externals StringType boolean_number_stops ''p''
       = Ok (Case StringType [(Get (Literal (VString ''p'')), Literal (VString ''A''))]
              (ErrorExpression ''replaced with default''))"
    by (simp add: boolean_number_stops_def categorical_defs eval_defs)
  have ex6: "convertCategoricalFunction example_externals StringType number_string_stops ''p''
       = Ok (MatchInt64 StringType (Get (Literal (VString ''p'')))
              [(5, Literal (VString ''A''))] (ErrorExpression ''replaced with default''))"
    by (simp add: number_string_stops_def categorical_defs eval_defs)
  have ex7: "convertCategoricalFunction example_externals StringType every_way_stops ''p''
       = Ok (Case StringType
              [(Get (Literal (VString ''p'')), ErrorExpression ''replaced with default'')]
              (Literal (VString ''A'')))"
    by (simp add: every_way_stops_def categorical_defs eval_defs)
  show ?thesis
    using general ex1 ex2 ex3 ex4 ex5 ex6 ex7 by simp
qed

theorem categorical_domain_inference_witness:
  "objectMember integer_stops ''stops''
     = Some (CArray (CArray [CNumber 5, CString ''A''] # []))
   \<and> toBool (CNumber 5 :: rat convertible) = None
   \<and> toNumber (CNumber 5 :: rat convertible) \<noteq> None
   \<and> convertCategoricalFunction example_externals StringType integer_stops ''p''
       = (case convertBranches (convert_int64 example_externals) example_externals StringType
                 integer_stops of
            Ok branches \<Rightarrow> Ok (categorical MatchInt64 StringType ''p'' branches)
          | Failed e \<Rightarrow> Failed e
          | AssertionFailure \<Rightarrow> AssertionFailure)
   \<and> objectMember boolean_stops ''stops''
       = Some (CArray (CArray [CBool True, CString ''A''] # []))
   \<and> toBool (CBool True :: rat convertible) \<noteq> None
   \<and> convertCategoricalFunction example_externals StringType boolean_stops ''p''
       = (case convertBranches convert_bool example_externals StringType boolean_stops of
            Ok branches \<Rightarrow> Ok (categorical_bool StringType ''p'' branches)
          | Failed e \<Rightarrow> Failed e
          | AssertionFailure \<Rightarrow> AssertionFailure)
   \<and> objectMember string_stops ''stops''
       = Some (CArray (CArray [CString ''x'', CString ''A''] # []))
   \<and> toString (CString ''x'' :: rat convertible) \<noteq> None
   \<and> convertCategoricalFunction example_externals StringType string_stops ''p''
       = (case convertBranches convert_string example_externals StringType string_stops of
            Ok branches \<Rightarrow> Ok (categorical MatchString StringType ''p'' branches)
          | Failed e \<Rightarrow> Failed e
          | AssertionFailure \<Rightarrow> AssertionFailure)
   \<and> objectMember null_stops ''stops'' = Some (CArray (CArray [CNull, CString ''A''] # []))
   \<and> toString (CNull :: rat convertible) = None
   \<and> convertCategoricalFunction example_externals StringType null_stops ''p''
       = Failed (Error ''stop domain value must be a number, string, or boolean'')
   \<and> objectMember boolean_number_stops ''stops''
       = Some (CArray (CArray [CScalar (Some True) (Some 1) None, CString ''A''] # []))
   \<and> toBool (CScalar (Some True) (Some 1) None :: rat convertible) \<noteq> None
   \<and> toNumber (CScalar (Some True) (Some 1) None :: rat convertible) \<noteq> None
   \<and> convertCategoricalFunction example_externals StringType boolean_number_stops ''p''
       = (case convertBranches convert_bool example_externals StringType boolean_number_stops of
            Ok branches \<Rightarrow> Ok (categorical_bool StringType ''p'' branches)
          | Failed e \<Rightarrow> Failed e
          | AssertionFailure \<Rightarrow> AssertionFailure)
   \<and> objectMember number_string_stops ''stops''
       = Some (CArray (CArray [CScalar None (Some 5) (Some ''5''), CString ''A''] # []))
   \<and> toBool (CScalar None (Some 5) (Some ''5'') :: rat convertible) = None
   \<and> toNumber (CScalar None (Some 5) (Some ''5'') :: rat convertible) \<noteq> None
   \<and> toString (CScalar None (Some 5) (Some ''5'') :: rat convertible) \<noteq> None
   \<and> convertCategoricalFunction example_externals StringType number_string_stops ''p''
       = (case convertBranches (convert_int64 example_externals) example_externals StringType
                 number_string_stops of
            Ok branches \<Rightarrow> Ok (categorical MatchInt64 StringType ''p'' branches)
          | Failed e \<Rightarrow> Failed e
          | AssertionFailure \<Rightarrow> AssertionFailure)"
proof -
  have s1: "objectMember integer_stops ''stops''
      = Some (CArray (CArray [CNumber 5, CString ''A''] # []))"
    by (simp add: integer_stops_def)
  have s2: "objectMember boolean_stops ''stops''
      = Some (CArray (CArray [CBool True, CString ''A''] # []))"
    by (simp add: boolean_stops_def)
  have s3: "objectMember string_stops ''stops''
      = Some (CArray (CArray [CString ''x'', CString ''A''] # []))"
    by (simp add: string_stops_def)
  have s4: "objectMember null_stops ''stops'' = Some (CArray (CArray [CNull, CString ''A''] # []))"
    by (simp add: null_stops_def)
  note w1 = categorical_domain_inference
    [of integer_stops "CNumber 5" "CString ''A''" "[]" example_externals StringType "''p''",
     THEN conjunct1, rule_format, OF s1]
  note w2 = categorical_domain_inference
    [of boolean_stops "CBool True" "CString ''A''" "[]" example_externals StringType "''p''",
     THEN conjunct1, rule_format, OF s2]
  note w3 = categorical_domain_inference
    [of string_stops "CString ''x''" "CString ''A''" "[]" example_externals StringType "''p''",
     THEN conjunct1, rule_format, OF s3]
  note w4 = categorical_domain_inference
    [of null_stops CNull "CString ''A''" "[]" example_externals StringType "''p''",
     THEN conjunct1, rule_format, OF s4]
  have s5: "objectMember boolean_number_stops ''stops''
      = Some (CArray (CArray [CScalar (Some True) (Some 1) None, CString ''A''] # []))"
    by (simp add: boolean_number_stops_def)
  have s6: "objectMember number_string_stops ''stops''
      = Some (CArray (CArray [CScalar None (Some 5) (Some ''5''), CString ''A''] # []))"
    by (simp add: number_string_stops_def)
  note w5 = categorical_domain_inference
    [of boolean_number_stops "CScalar (Some True) (Some 1) None" "CString ''A''" "[]"
        example_externals StringType "''p''",
     THEN conjunct1, rule_format, OF s5]
  note w6 = categorical_domain_inference
    [of number_string_stops "CScalar None (Some 5) (Some ''5'')" "CString ''A''" "[]"
        example_externals StringType "''p''",
     THEN conjunct1, rule_format, OF s6]
  show ?thesis
    using s1 s2 s3 s4 s5 s6 w1 w2 w3 w4 w5 w6 by simp
qed

subsection \<open>Boolean categorical functions\<close>




subsection \<open>The base parameter of composite functions\<close>

lemma composite_base_first:
  assumes "objectMember value ''property'' \<noteq> None"
    and "objectMember value ''base'' = Some baseValue" and "toNumber baseValue = None"
  shows "composite convert X type value makeInnerExpression
           = Failed (Error ''function base must be a number'')"
  using assms by (auto simp: composite_def convertBase_def)

text \<open>
  C10, as stated, fails: a composite function whose "base" is not a number fails with
  another message when it has no "property" member, and when its shape is not one that
  the inner domain supports (here: interval over a boolean inner domain, and identity).
\<close>

theorem composite_base_counterexample:
  "objectMember composite_no_property ''base'' = Some (CString ''x'')
   \<and> toNumber (CString ''x'' :: rat convertible) = None
   \<and> convertCompositeFunctionToExpression example_externals NumberType composite_no_property
       = Failed (Error ''function must specify property'')
   \<and> convertCompositeFunctionToExpression example_externals NumberType composite_no_property
       \<noteq> Failed (Error ''function base must be a number'')
   \<and> objectMember composite_interval_boolean ''base'' = Some (CString ''x'')
   \<and> functionType NumberType composite_interval_boolean = Interval
   \<and> convertCompositeFunctionToExpression example_externals NumberType composite_interval_boolean
       = Failed (Error ''unsupported function type'')
   \<and> convertCompositeFunctionToExpression example_externals NumberType composite_interval_boolean
       \<noteq> Failed (Error ''function base must be a number'')
   \<and> objectMember composite_identity ''base'' = Some (CString ''x'')
   \<and> functionType NumberType composite_identity = Identity
   \<and> convertCompositeFunctionToExpression example_externals NumberType composite_identity
       = Failed (Error ''unsupported function type'')
   \<and> convertCompositeFunctionToExpression example_externals NumberType composite_identity
       \<noteq> Failed (Error ''function base must be a number'')"
  by (simp add: composite_no_property_def composite_interval_boolean_def composite_identity_def
      convertCompositeFunctionToExpression_def functionType_def composite_def)

text \<open>
  C10, amended. \<^verbatim>\<open>composite<T>\<close> fails with "function base must be a number" whenever
  the configuration has a "property" member and a "base" member that is not coercible to
  a number, for every key type and every inner builder, also when "property" is not a
  string and whatever the stops are. Hence the composite converter fails with this message
  for every configuration that passes its entry checks (an object whose "stops" is an array
  whose first stop is a two-element array with an object key that has a "value" member),
  whose inner domain and shape select a builder (Categorical for a boolean or a string
  domain; Interval, Exponential or Categorical for a numeric one), and that has a
  "property" member and a "base" member that is not coercible to a number.
\<close>

theorem composite_base_before_stops:
  "(objectMember value ''property'' \<noteq> None \<and> objectMember value ''base'' = Some baseValue
      \<and> toNumber baseValue = None \<longrightarrow>
      composite convert X type value makeInnerExpression
        = Failed (Error ''function base must be a number''))
   \<and> (isObject value
      \<and> objectMember value ''stops'' = Some (CArray (CArray [CObject members, output] # rest))
      \<and> map_of members ''value'' = Some sourceValue
      \<and> ((toBool sourceValue \<noteq> None \<and> functionType type value = Categorical)
          \<or> (toBool sourceValue = None \<and> toNumber sourceValue \<noteq> None
               \<and> (functionType type value = Interval \<or> functionType type value = Exponential
                    \<or> functionType type value = Categorical))
          \<or> (toBool sourceValue = None \<and> toNumber sourceValue = None
               \<and> toString sourceValue \<noteq> None \<and> functionType type value = Categorical))
      \<and> objectMember value ''property'' \<noteq> None \<and> objectMember value ''base'' = Some baseValue
      \<and> toNumber baseValue = None \<longrightarrow>
      convertCompositeFunctionToExpression X type value
        = Failed (Error ''function base must be a number''))"
proof (intro conjI impI)
  assume "objectMember value ''property'' \<noteq> None \<and> objectMember value ''base'' = Some baseValue
      \<and> toNumber baseValue = None"
  then show "composite convert X type value makeInnerExpression
      = Failed (Error ''function base must be a number'')"
    by (simp add: composite_base_first)
next
  assume a: "isObject value
      \<and> objectMember value ''stops'' = Some (CArray (CArray [CObject members, output] # rest))
      \<and> map_of members ''value'' = Some sourceValue
      \<and> ((toBool sourceValue \<noteq> None \<and> functionType type value = Categorical)
          \<or> (toBool sourceValue = None \<and> toNumber sourceValue \<noteq> None
               \<and> (functionType type value = Interval \<or> functionType type value = Exponential
                    \<or> functionType type value = Categorical))
          \<or> (toBool sourceValue = None \<and> toNumber sourceValue = None
               \<and> toString sourceValue \<noteq> None \<and> functionType type value = Categorical))
      \<and> objectMember value ''property'' \<noteq> None \<and> objectMember value ''base'' = Some baseValue
      \<and> toNumber baseValue = None"
  then have base: "\<And>convert makeInnerExpression.
      composite convert X type value makeInnerExpression
        = Failed (Error ''function base must be a number'')"
    by (simp add: composite_base_first)
  from a show "convertCompositeFunctionToExpression X type value
      = Failed (Error ''function base must be a number'')"
    by (auto simp: convertCompositeFunctionToExpression_def base)
qed

theorem composite_base_before_stops_witness:
  "isObject composite_interval_bad_base
   \<and> objectMember composite_interval_bad_base ''stops''
       = Some (CArray (CArray [CObject [(''zoom'', CNumber 0), (''value'', CNumber 0)], CNumber 1]
                        # [CString ''not a stop'']))
   \<and> map_of [(''zoom'', CNumber 0), (''value'', CNumber 0 :: rat convertible)] ''value''
       = Some (CNumber 0)
   \<and> toBool (CNumber 0 :: rat convertible) = None
   \<and> toNumber (CNumber 0 :: rat convertible) \<noteq> None
   \<and> functionType NumberType composite_interval_bad_base = Interval
   \<and> objectMember composite_interval_bad_base ''property'' \<noteq> None
   \<and> objectMember composite_interval_bad_base ''base'' = Some (CString ''x'')
   \<and> toNumber (CString ''x'' :: rat convertible) = None
   \<and> convertCompositeFunctionToExpression example_externals NumberType composite_interval_bad_base
       = Failed (Error ''function base must be a number'')
   \<and> functionType NumberType composite_categorical_bad_base = Categorical
   \<and> objectMember composite_categorical_bad_base ''property'' = Some (CNumber 7)
   \<and> objectMember composite_categorical_bad_base ''base'' = Some CNull
   \<and> convertCompositeFunctionToExpression example_externals NumberType
        composite_categorical_bad_base
       = Failed (Error ''function base must be a number'')
   \<and> composite convert_bool example_externals NumberType composite_categorical_bad_base
        (\<lambda>type' base property stops. Ok (categorical_bool type' property stops))
       = Failed (Error ''function base must be a number'')"
  using composite_base_before_stops
          [of composite_interval_bad_base "CString ''x''" convert_bool example_externals NumberType
              "\<lambda>type' base property stops. Ok (categorical_bool type' property stops)"
              "[(''zoom'', CNumber 0), (''value'', CNumber 0)]" "CNumber 1"
              "[CString ''not a stop'']" "CNumber 0"]
        composite_base_before_stops
          [of composite_categorical_bad_base CNull convert_bool example_externals NumberType
              "\<lambda>type' base property stops. Ok (categorical_bool type' property stops)"
              "[(''zoom'', CNumber 0), (''value'', CString ''a'')]" "CNumber 1"
              "[]" "CString ''a''"]
  by (simp add: composite_interval_bad_base_def composite_categorical_bad_base_def
      functionType_def)

subsection \<open>Grouping by zoom in composite functions\<close>

lemma composite_stops_Ok:
  "composite_stops makeInnerExpression type base property M acc = Ok stops \<Longrightarrow>
   \<exists>inner. list_all2 (\<lambda>e s. fst s = fst e
                \<and> makeInnerExpression type base property (snd e) = Ok (snd s)) M inner
      \<and> stops = fold (\<lambda>p. emplace (fst p) (snd p)) inner acc"
proof (induction M arbitrary: acc)
  case Nil
  then show ?case by simp
next
  case (Cons e M)
  from Cons.prems obtain i where
    i: "makeInnerExpression type base property (snd e) = Ok i"
    and rest: "composite_stops makeInnerExpression type base property M (emplace (fst e) i acc)
        = Ok stops"
    by (auto split: result.splits)
  from Cons.IH [OF rest] obtain inner where
    inner: "list_all2 (\<lambda>e s. fst s = fst e
                \<and> makeInnerExpression type base property (snd e) = Ok (snd s)) M inner"
      "stops = fold (\<lambda>p. emplace (fst p) (snd p)) inner (emplace (fst e) i acc)"
    by blast
  with i have "list_all2 (\<lambda>e s. fst s = fst e
                \<and> makeInnerExpression type base property (snd e) = Ok (snd s))
        (e # M) ((fst e, i) # inner)
      \<and> stops = fold (\<lambda>p. emplace (fst p) (snd p)) ((fst e, i) # inner) acc"
    by simp
  then show ?case by blast
qed

lemma composite_stops_sorted:
  assumes "composite_stops makeInnerExpression type base property M [] = Ok stops"
    and "sorted_wrt (<) (map fst M)"
  shows "list_all2 (\<lambda>e s. fst s = fst e
            \<and> makeInnerExpression type base property (snd e) = Ok (snd s)) M stops"
proof -
  from composite_stops_Ok [OF assms(1)] obtain inner where
    inner: "list_all2 (\<lambda>e s. fst s = fst e
                \<and> makeInnerExpression type base property (snd e) = Ok (snd s)) M inner"
    and stops: "stops = fold (\<lambda>p. emplace (fst p) (snd p)) inner []"
    by blast
  from inner have "list_all2 (\<lambda>e s. fst e = fst s) M inner"
    by (rule list_all2_mono) simp
  then have "map fst M = map fst inner"
    by (induction rule: list_all2_induct) simp_all
  with assms(2) have "sorted_wrt (<) (map fst ([] @ inner))" by simp
  then have "fold (\<lambda>p. emplace (fst p) (snd p)) inner [] = [] @ inner"
    by (rule fold_emplace_sorted)
  with stops inner show ?thesis by simp
qed

lemma composite_buckets:
  assumes "composite_loop convert X type ss [] = Ok buckets"
  shows "\<exists>ts. list_all2 (tripleParses convert X type) ss ts
           \<and> sorted_wrt (<) (map fst buckets) \<and> fst ` set buckets = fst ` set ts
           \<and> (\<forall>z b. (z, b) \<in> set buckets \<longrightarrow>
                sorted_wrt (<) (map fst b)
                \<and> set b \<subseteq> snd ` {t \<in> set ts. fst t = z}
                \<and> (\<forall>k. map_of b k = first_seen (map snd (filter (\<lambda>t. fst t = z) ts)) k))"
proof -
  from composite_loop_Ok [OF assms] obtain ts where
    ts: "list_all2 (tripleParses convert X type) ss ts"
    and buckets: "buckets = fold group_step ts []"
    by blast
  have empty: "\<forall>z. sorted_wrt (<)
      (map fst (bucket ([] :: ('a \<times> ('b \<times> ('a, 'c) expression) list) list) z))"
    by (simp add: bucket_def)
  have sorted: "sorted_wrt (<) (map fst buckets)"
    unfolding buckets using sorted_fold_subscript_emplace [of "[]" ts] by simp
  then have distinct: "distinct (map fst buckets)" by (rule sorted_less_distinct)
  have keys: "fst ` set buckets = fst ` set ts"
    unfolding buckets by (simp add: keys_fold_subscript_emplace)
  have "sorted_wrt (<) (map fst b)
      \<and> set b \<subseteq> snd ` {t \<in> set ts. fst t = z}
      \<and> (\<forall>k. map_of b k = first_seen (map snd (filter (\<lambda>t. fst t = z) ts)) k)"
    if "(z, b) \<in> set buckets" for z b
  proof -
    from that distinct have "map_of buckets z = Some b" by simp
    then have b: "bucket buckets z = b" by (simp add: bucket_def)
    have "sorted_wrt (<) (map fst (bucket buckets z))"
      unfolding buckets using bucket_fold_sorted [OF _ empty, of ts z] by simp
    with b have sorted_b: "sorted_wrt (<) (map fst b)" by simp
    have "map_of (bucket buckets z) = map_of (map snd (filter (\<lambda>t. fst t = z) ts))"
      unfolding buckets using map_of_bucket_fold [OF _ empty, of ts z] by (simp add: bucket_def)
    with b have map_b: "map_of b = map_of (map snd (filter (\<lambda>t. fst t = z) ts))" by simp
    have "p \<in> snd ` {t \<in> set ts. fst t = z}" if "p \<in> set b" for p
    proof -
      from sorted_b have "distinct (map fst b)" by (rule sorted_less_distinct)
      with that have "map_of b (fst p) = Some (snd p)" by simp
      with map_b have "map_of (map snd (filter (\<lambda>t. fst t = z) ts)) (fst p) = Some (snd p)"
        by simp
      then have "p \<in> set (map snd (filter (\<lambda>t. fst t = z) ts))"
        by (auto dest: map_of_SomeD)
      then show ?thesis by auto
    qed
    with sorted_b map_b show ?thesis
      by (auto simp: map_of_first_seen)
  qed
  with ts sorted keys show ?thesis by blast
qed

lemma array_of_two: "isArray v \<Longrightarrow> arrayLength v = 2 \<Longrightarrow> \<exists>a b. v = CArray [a, b]"
  by (cases v) (auto simp: length_Suc_conv numeral_2_eq_2)

lemma array_not_empty: "isArray v \<Longrightarrow> arrayLength v \<noteq> 0 \<Longrightarrow> \<exists>x xs. v = CArray (x # xs)"
  by (cases v) (auto simp: neq_Nil_conv)

lemma composite_entry_shape:
  assumes "convertCompositeFunctionToExpression X type value = Ok result"
  shows "\<exists>members output rest sourceValue.
           isObject value
           \<and> objectMember value ''stops'' = Some (CArray (CArray [CObject members, output] # rest))
           \<and> map_of members ''value'' = Some sourceValue"
proof -
  from assms have obj: "isObject value"
    by (auto simp: convertCompositeFunctionToExpression_def split: if_splits)
  from assms obj obtain stopsValue where
    sv: "objectMember value ''stops'' = Some stopsValue"
    by (auto simp: convertCompositeFunctionToExpression_def split: option.splits)
  from assms obj sv have "isArray stopsValue" "arrayLength stopsValue \<noteq> 0"
    by (auto simp: convertCompositeFunctionToExpression_def split: if_splits)
  then obtain first rest where stops: "stopsValue = CArray (first # rest)"
    using array_not_empty by blast
  from assms obj sv stops have "isArray first" "arrayLength first = 2"
    by (auto simp: convertCompositeFunctionToExpression_def Let_def split: if_splits)
  then obtain stop out where first: "first = CArray [stop, out]"
    using array_of_two by blast
  from assms obj sv stops first have "isObject stop"
    by (auto simp: convertCompositeFunctionToExpression_def Let_def split: if_splits)
  then obtain members where stop: "stop = CObject members"
    by (auto simp: isObject_iff)
  from assms obj sv stops first stop obtain sourceValue where
    "map_of members ''value'' = Some sourceValue"
    by (auto simp: convertCompositeFunctionToExpression_def Let_def split: option.splits)
  with obj sv stops first stop show ?thesis by blast
qed

lemma composite_entry_selects:
  assumes "convertCompositeFunctionToExpression X type value = Ok result"
  shows "\<exists>members output rest sourceValue.
           objectMember value ''stops'' = Some (CArray (CArray [CObject members, output] # rest))
           \<and> map_of members ''value'' = Some sourceValue
           \<and> ((toBool sourceValue \<noteq> None \<and> functionType type value = Categorical
                \<and> composite convert_bool X type value
                     (\<lambda>type' base property stops. Ok (categorical_bool type' property stops))
                    = Ok result)
             \<or> (toBool sourceValue = None \<and> toNumber sourceValue \<noteq> None
                \<and> functionType type value = Interval
                \<and> composite convert_double X type value
                     (\<lambda>type' base property stops.
                        Ok (step type' (number (get (literal (VString property)))) stops))
                    = Ok result)
             \<or> (toBool sourceValue = None \<and> toNumber sourceValue \<noteq> None
                \<and> functionType type value = Exponential
                \<and> composite convert_double X type value
                     (\<lambda>type' base property stops.
                        interpolate type' (exponential base)
                          (number (get (literal (VString property)))) stops)
                    = Ok result)
             \<or> (toBool sourceValue = None \<and> toNumber sourceValue \<noteq> None
                \<and> functionType type value = Categorical
                \<and> composite (convert_int64 X) X type value
                     (\<lambda>type' base property stops.
                        Ok (categorical MatchInt64 type' property stops))
                    = Ok result)
             \<or> (toBool sourceValue = None \<and> toNumber sourceValue = None
                \<and> toString sourceValue \<noteq> None \<and> functionType type value = Categorical
                \<and> composite convert_string X type value
                     (\<lambda>type' base property stops.
                        Ok (categorical MatchString type' property stops))
                    = Ok result))"
proof -
  from composite_entry_shape [OF assms] obtain members out rest sourceValue where
    obj: "isObject value"
    and stops: "objectMember value ''stops''
        = Some (CArray (CArray [CObject members, out] # rest))"
    and source: "map_of members ''value'' = Some sourceValue"
    by blast
  have "(toBool sourceValue \<noteq> None \<and> functionType type value = Categorical
                \<and> composite convert_bool X type value
                     (\<lambda>type' base property stops. Ok (categorical_bool type' property stops))
                    = Ok result)
             \<or> (toBool sourceValue = None \<and> toNumber sourceValue \<noteq> None
                \<and> functionType type value = Interval
                \<and> composite convert_double X type value
                     (\<lambda>type' base property stops.
                        Ok (step type' (number (get (literal (VString property)))) stops))
                    = Ok result)
             \<or> (toBool sourceValue = None \<and> toNumber sourceValue \<noteq> None
                \<and> functionType type value = Exponential
                \<and> composite convert_double X type value
                     (\<lambda>type' base property stops.
                        interpolate type' (exponential base)
                          (number (get (literal (VString property)))) stops)
                    = Ok result)
             \<or> (toBool sourceValue = None \<and> toNumber sourceValue \<noteq> None
                \<and> functionType type value = Categorical
                \<and> composite (convert_int64 X) X type value
                     (\<lambda>type' base property stops.
                        Ok (categorical MatchInt64 type' property stops))
                    = Ok result)
             \<or> (toBool sourceValue = None \<and> toNumber sourceValue = None
                \<and> toString sourceValue \<noteq> None \<and> functionType type value = Categorical
                \<and> composite convert_string X type value
                     (\<lambda>type' base property stops.
                        Ok (categorical MatchString type' property stops))
                    = Ok result)"
    using assms obj stops source
    by (cases "functionType type value")
       (auto simp: convertCompositeFunctionToExpression_def split: if_splits)
  with stops source show ?thesis by blast
qed

lemma composite_stops_total:
  assumes "\<forall>b. \<exists>i. makeInnerExpression type base property b = Ok i"
  shows "\<exists>stops. composite_stops makeInnerExpression type base property M acc = Ok stops"
proof (induction M arbitrary: acc)
  case Nil
  show ?case by simp
next
  case (Cons e M)
  from assms obtain i where "makeInnerExpression type base property (snd e) = Ok i"
    by blast
  with Cons.IH [of "emplace (fst e) i acc"] show ?case by simp
qed

lemma composite_converts:
  assumes "objectMember value ''property'' = Some propertyValue"
    and "toString propertyValue = Some property"
    and "convertBase value = Ok base"
    and "objectMember value ''stops'' = Some (CArray ss)"
    and "list_all2 (tripleParses convert X type) ss ts"
    and "\<forall>b. \<exists>i. makeInnerExpression type base property b = Ok i"
  shows "\<exists>result. composite convert X type value makeInnerExpression = Ok result"
proof -
  have loop: "composite_loop convert X type ss [] = Ok (fold group_step ts [])"
    using assms(5) by (rule composite_loop_all_parse)
  from assms(6)
    composite_stops_total [of makeInnerExpression type base property "fold group_step ts []" "[]"]
  obtain stops where
    stops: "composite_stops makeInnerExpression type base property (fold group_step ts []) []
        = Ok stops"
    by blast
  from assms(1-4) loop stops show ?thesis
    by (simp add: composite_def interpolate_def createInterpolate_def)
qed

lemma composite_entry_converts:
  assumes "isObject value"
    and "objectMember value ''stops'' = Some (CArray (CArray [CObject members, out] # rest))"
    and "map_of members ''value'' = Some sourceValue"
    and "objectMember value ''property'' = Some propertyValue"
    and "toString propertyValue = Some property"
    and "convertBase value = Ok base"
    and "(toBool sourceValue \<noteq> None \<and> functionType type value = Categorical
            \<and> list_all2 (tripleParses convert_bool X type)
                 (CArray [CObject members, out] # rest) tsb)
         \<or> (toBool sourceValue = None \<and> toNumber sourceValue \<noteq> None
            \<and> (functionType type value = Interval \<or> functionType type value = Exponential)
            \<and> list_all2 (tripleParses convert_double X type)
                 (CArray [CObject members, out] # rest) tsd)
         \<or> (toBool sourceValue = None \<and> toNumber sourceValue \<noteq> None
            \<and> functionType type value = Categorical
            \<and> list_all2 (tripleParses (convert_int64 X) X type)
                 (CArray [CObject members, out] # rest) tsi)
         \<or> (toBool sourceValue = None \<and> toNumber sourceValue = None
            \<and> toString sourceValue \<noteq> None \<and> functionType type value = Categorical
            \<and> list_all2 (tripleParses convert_string X type)
                 (CArray [CObject members, out] # rest) tss)"
  shows "\<exists>result. convertCompositeFunctionToExpression X type value = Ok result"
proof -
  note wf = assms(4) assms(5) assms(6) assms(2)
  from assms(7) consider
    (boolean) "toBool sourceValue \<noteq> None" "functionType type value = Categorical"
      "list_all2 (tripleParses convert_bool X type) (CArray [CObject members, out] # rest) tsb"
  | (interval) "toBool sourceValue = None" "toNumber sourceValue \<noteq> None"
      "functionType type value = Interval"
      "list_all2 (tripleParses convert_double X type) (CArray [CObject members, out] # rest) tsd"
  | (exponential) "toBool sourceValue = None" "toNumber sourceValue \<noteq> None"
      "functionType type value = Exponential"
      "list_all2 (tripleParses convert_double X type) (CArray [CObject members, out] # rest) tsd"
  | (integer) "toBool sourceValue = None" "toNumber sourceValue \<noteq> None"
      "functionType type value = Categorical"
      "list_all2 (tripleParses (convert_int64 X) X type)
         (CArray [CObject members, out] # rest) tsi"
  | (string) "toBool sourceValue = None" "toNumber sourceValue = None"
      "toString sourceValue \<noteq> None" "functionType type value = Categorical"
      "list_all2 (tripleParses convert_string X type) (CArray [CObject members, out] # rest) tss"
    by (elim disjE conjE; blast)
  then show ?thesis
  proof cases
    case boolean
    have "\<exists>result. composite convert_bool X type value
        (\<lambda>type' base property stops. Ok (categorical_bool type' property stops)) = Ok result"
      using wf boolean(3) by (rule composite_converts) simp
    with assms(1-3) boolean(1,2) show ?thesis
      by (simp add: convertCompositeFunctionToExpression_def)
  next
    case interval
    have "\<exists>result. composite convert_double X type value
        (\<lambda>type' base property stops.
           Ok (step type' (number (get (literal (VString property)))) stops)) = Ok result"
      using wf interval(4) by (rule composite_converts) simp
    with assms(1-3) interval(1-3) show ?thesis
      by (simp add: convertCompositeFunctionToExpression_def)
  next
    case exponential
    from exponential(3) have "interpolatable type" by (rule functionType_Exponential)
    then have total: "\<forall>b. \<exists>i. interpolate type (exponential base)
        (number (get (literal (VString property)))) b = Ok i"
      by (simp add: interpolate_def createInterpolate_def)
    have "\<exists>result. composite convert_double X type value
        (\<lambda>type' base property stops.
           interpolate type' (exponential base) (number (get (literal (VString property))))
             stops) = Ok result"
      using wf exponential(4) total by (rule composite_converts)
    with assms(1-3) exponential(1-3) show ?thesis
      by (simp add: convertCompositeFunctionToExpression_def)
  next
    case integer
    have "\<exists>result. composite (convert_int64 X) X type value
        (\<lambda>type' base property stops. Ok (categorical MatchInt64 type' property stops))
          = Ok result"
      using wf integer(4) by (rule composite_converts) simp
    with assms(1-3) integer(1-3) show ?thesis
      by (simp add: convertCompositeFunctionToExpression_def)
  next
    case string
    have "\<exists>result. composite convert_string X type value
        (\<lambda>type' base property stops. Ok (categorical MatchString type' property stops))
          = Ok result"
      using wf string(5) by (rule composite_converts) simp
    with assms(1-3) string(1-4) show ?thesis
      by (simp add: convertCompositeFunctionToExpression_def)
  qed
qed

text \<open>
  C1. A composite function that has a "property" string and a base, and whose stops all
  parse to triples of zoom, inner key and literal expression, is converted by
  \<^verbatim>\<open>composite<T>\<close> to an expression, for every inner builder that yields an expression
  for every map; and so it is by the composite converter, which selects the key type and the
  inner builder from the inner domain and the shape. Whenever \<^verbatim>\<open>composite<T>\<close> returns
  an expression, every stop of the "stops" array has been parsed to such a triple; the first
  loop has grouped the pairs of inner key and literal into one map per zoom that occurs
  (each map holds pairs parsed at its zoom only, and has, for every inner key at its zoom,
  the literal of the first stop with that zoom and key); the inner builder has been applied
  to the map of every zoom, and the outer stops hold its results keyed by zoom, in ascending
  order; and the result is the linear interpolation over zoom of the outer stops when the
  target type is interpolatable and the step expression over zoom otherwise. Whenever the
  composite converter returns an expression, it is such a result of \<^verbatim>\<open>composite<T>\<close>,
  with the key type and the inner builder that the inner domain and the shape select. The
  stops \<^verbatim>\<open>[[{zoom:0,value:0},1],[{zoom:0,value:10},2],[{zoom:5,value:0},3]]\<close> are grouped
  into the two zooms 0 and 5, with two property stops at zoom 0; for the Number target the
  result interpolates over zoom, for a String target it steps. Stops at the three zooms 10,
  0 and 5 give three outer stops, in ascending order of zoom.
\<close>

theorem composite_groups_by_zoom:
  "(composite convert X type value makeInnerExpression = Ok result \<longrightarrow>
      (\<exists>ss ts buckets stops base propertyValue property.
         objectMember value ''stops'' = Some (CArray ss)
         \<and> objectMember value ''property'' = Some propertyValue \<and> toString propertyValue = Some property
         \<and> convertBase value = Ok base
         \<and> list_all2 (tripleParses convert X type) ss ts
         \<and> composite_loop convert X type ss [] = Ok buckets
         \<and> sorted_wrt (<) (map fst buckets) \<and> fst ` set buckets = fst ` set ts
         \<and> (\<forall>z b. (z, b) \<in> set buckets \<longrightarrow>
              sorted_wrt (<) (map fst b)
              \<and> set b \<subseteq> snd ` {t \<in> set ts. fst t = z}
              \<and> (\<forall>k. map_of b k = first_seen (map snd (filter (\<lambda>t. fst t = z) ts)) k))
         \<and> list_all2 (\<lambda>e s. fst s = fst e
                \<and> makeInnerExpression type base property (snd e) = Ok (snd s)) buckets stops
         \<and> result = (if interpolatable type then Interpolate type LinearInterpolator Zoom stops
                      else Step type Zoom stops)))
   \<and> (objectMember value ''property'' = Some propertyValue
      \<and> toString propertyValue = Some property
      \<and> convertBase value = Ok base
      \<and> objectMember value ''stops'' = Some (CArray ss)
      \<and> list_all2 (tripleParses convert X type) ss ts
      \<and> (\<forall>b. \<exists>i. makeInnerExpression type base property b = Ok i) \<longrightarrow>
      (\<exists>result. composite convert X type value makeInnerExpression = Ok result))
   \<and> (convertCompositeFunctionToExpression X type value = Ok result' \<longrightarrow>
      (\<exists>members output rest sourceValue.
           objectMember value ''stops'' = Some (CArray (CArray [CObject members, output] # rest))
           \<and> map_of members ''value'' = Some sourceValue
           \<and> ((toBool sourceValue \<noteq> None \<and> functionType type value = Categorical
                \<and> composite convert_bool X type value
                     (\<lambda>type' base property stops. Ok (categorical_bool type' property stops))
                    = Ok result')
             \<or> (toBool sourceValue = None \<and> toNumber sourceValue \<noteq> None
                \<and> functionType type value = Interval
                \<and> composite convert_double X type value
                     (\<lambda>type' base property stops.
                        Ok (step type' (number (get (literal (VString property)))) stops))
                    = Ok result')
             \<or> (toBool sourceValue = None \<and> toNumber sourceValue \<noteq> None
                \<and> functionType type value = Exponential
                \<and> composite convert_double X type value
                     (\<lambda>type' base property stops.
                        interpolate type' (exponential base)
                          (number (get (literal (VString property)))) stops)
                    = Ok result')
             \<or> (toBool sourceValue = None \<and> toNumber sourceValue \<noteq> None
                \<and> functionType type value = Categorical
                \<and> composite (convert_int64 X) X type value
                     (\<lambda>type' base property stops.
                        Ok (categorical MatchInt64 type' property stops))
                    = Ok result')
             \<or> (toBool sourceValue = None \<and> toNumber sourceValue = None
                \<and> toString sourceValue \<noteq> None \<and> functionType type value = Categorical
                \<and> composite convert_string X type value
                     (\<lambda>type' base property stops.
                        Ok (categorical MatchString type' property stops))
                    = Ok result'))))
   \<and> (isObject value
      \<and> objectMember value ''stops'' = Some (CArray (CArray [CObject members, output] # rest))
      \<and> map_of members ''value'' = Some sourceValue
      \<and> objectMember value ''property'' = Some propertyValue
      \<and> toString propertyValue = Some property
      \<and> convertBase value = Ok base
      \<and> ((toBool sourceValue \<noteq> None \<and> functionType type value = Categorical
            \<and> list_all2 (tripleParses convert_bool X type)
                 (CArray [CObject members, output] # rest) tsb)
         \<or> (toBool sourceValue = None \<and> toNumber sourceValue \<noteq> None
            \<and> (functionType type value = Interval \<or> functionType type value = Exponential)
            \<and> list_all2 (tripleParses convert_double X type)
                 (CArray [CObject members, output] # rest) tsd)
         \<or> (toBool sourceValue = None \<and> toNumber sourceValue \<noteq> None
            \<and> functionType type value = Categorical
            \<and> list_all2 (tripleParses (convert_int64 X) X type)
                 (CArray [CObject members, output] # rest) tsi)
         \<or> (toBool sourceValue = None \<and> toNumber sourceValue = None
            \<and> toString sourceValue \<noteq> None \<and> functionType type value = Categorical
            \<and> list_all2 (tripleParses convert_string X type)
                 (CArray [CObject members, output] # rest) tss)) \<longrightarrow>
      (\<exists>result. convertCompositeFunctionToExpression X type value = Ok result))
   \<and> composite_loop convert_double example_externals NumberType zoom_value_stops []
       = Ok [(0, [(0, Literal (VNumber 1)), (10, Literal (VNumber 2))]),
             (5, [(0, Literal (VNumber 3))])]
   \<and> convertCompositeFunctionToExpression example_externals NumberType zoom_value_function
       = Ok (Interpolate NumberType LinearInterpolator Zoom
              [(0, Interpolate NumberType (ExponentialInterpolator 1)
                     (NumberAssertion (Get (Literal (VString ''p''))))
                     [(0, Literal (VNumber 1)), (10, Literal (VNumber 2))]),
               (5, Interpolate NumberType (ExponentialInterpolator 1)
                     (NumberAssertion (Get (Literal (VString ''p''))))
                     [(0, Literal (VNumber 3))])])
   \<and> convertCompositeFunctionToExpression example_externals StringType zoom_value_string_function
       = Ok (Step StringType Zoom
              [(0, Step StringType (NumberAssertion (Get (Literal (VString ''p''))))
                     [(0, Literal (VString ''a'')), (10, Literal (VString ''b''))]),
               (5, Step StringType (NumberAssertion (Get (Literal (VString ''p''))))
                     [(0, Literal (VString ''c''))])])
   \<and> convertCompositeFunctionToExpression example_externals NumberType three_zoom_function
       = Ok (Interpolate NumberType LinearInterpolator Zoom
              [(0, Interpolate NumberType (ExponentialInterpolator 1)
                     (NumberAssertion (Get (Literal (VString ''p''))))
                     [(0, Literal (VNumber 1))]),
               (5, Interpolate NumberType (ExponentialInterpolator 1)
                     (NumberAssertion (Get (Literal (VString ''p''))))
                     [(0, Literal (VNumber 2))]),
               (10, Interpolate NumberType (ExponentialInterpolator 1)
                     (NumberAssertion (Get (Literal (VString ''p''))))
                     [(0, Literal (VNumber 3))])])"
proof (intro conjI impI)
  assume ok: "composite convert X type value makeInnerExpression = Ok result"
  from ok obtain propertyValue where
    pv: "objectMember value ''property'' = Some propertyValue"
    by (auto simp: composite_def split: option.splits)
  from ok pv obtain base where base: "convertBase value = Ok base"
    by (auto simp: composite_def split: result.splits)
  from ok pv base obtain property where property: "toString propertyValue = Some property"
    by (auto simp: composite_def split: option.splits)
  from ok pv base property obtain ss where
    stops: "objectMember value ''stops'' = Some (CArray ss)"
    by (auto simp: composite_def isArray_iff split: option.splits if_splits)
  from ok pv base property stops obtain buckets where
    loop: "composite_loop convert X type ss [] = Ok buckets"
    by (auto simp: composite_def split: result.splits)
  from ok pv base property stops loop obtain stops' where
    inner: "composite_stops makeInnerExpression type base property buckets [] = Ok stops'"
    by (auto simp: composite_def split: result.splits)
  from ok pv base property stops loop inner have
    result: "result = (if interpolatable type then Interpolate type LinearInterpolator Zoom stops'
                       else Step type Zoom stops')"
    by (auto simp: composite_def interpolate_def createInterpolate_def step_def zoom_def
        linear_def split: if_splits)
  from composite_buckets [OF loop] obtain ts where
    ts: "list_all2 (tripleParses convert X type) ss ts"
    and sorted: "sorted_wrt (<) (map fst buckets)"
    and keys: "fst ` set buckets = fst ` set ts"
    and groups: "\<forall>z b. (z, b) \<in> set buckets \<longrightarrow>
          sorted_wrt (<) (map fst b)
          \<and> set b \<subseteq> snd ` {t \<in> set ts. fst t = z}
          \<and> (\<forall>k. map_of b k = first_seen (map snd (filter (\<lambda>t. fst t = z) ts)) k)"
    by blast
  from composite_stops_sorted [OF inner sorted] have
    built: "list_all2 (\<lambda>e s. fst s = fst e
              \<and> makeInnerExpression type base property (snd e) = Ok (snd s)) buckets stops'" .
  from stops pv property base ts loop sorted keys groups built result
  show "\<exists>ss ts buckets stops base propertyValue property.
         objectMember value ''stops'' = Some (CArray ss)
         \<and> objectMember value ''property'' = Some propertyValue \<and> toString propertyValue = Some property
         \<and> convertBase value = Ok base
         \<and> list_all2 (tripleParses convert X type) ss ts
         \<and> composite_loop convert X type ss [] = Ok buckets
         \<and> sorted_wrt (<) (map fst buckets) \<and> fst ` set buckets = fst ` set ts
         \<and> (\<forall>z b. (z, b) \<in> set buckets \<longrightarrow>
              sorted_wrt (<) (map fst b)
              \<and> set b \<subseteq> snd ` {t \<in> set ts. fst t = z}
              \<and> (\<forall>k. map_of b k = first_seen (map snd (filter (\<lambda>t. fst t = z) ts)) k))
         \<and> list_all2 (\<lambda>e s. fst s = fst e
                \<and> makeInnerExpression type base property (snd e) = Ok (snd s)) buckets stops
         \<and> result = (if interpolatable type then Interpolate type LinearInterpolator Zoom stops
                      else Step type Zoom stops)"
    by blast
next
  assume "objectMember value ''property'' = Some propertyValue
      \<and> toString propertyValue = Some property
      \<and> convertBase value = Ok base
      \<and> objectMember value ''stops'' = Some (CArray ss)
      \<and> list_all2 (tripleParses convert X type) ss ts
      \<and> (\<forall>b. \<exists>i. makeInnerExpression type base property b = Ok i)"
  then show "\<exists>result. composite convert X type value makeInnerExpression = Ok result"
    using composite_converts
      [of "value" propertyValue property base ss convert X type ts makeInnerExpression]
    by blast
next
  assume "convertCompositeFunctionToExpression X type value = Ok result'"
  then show "\<exists>members output rest sourceValue.
           objectMember value ''stops'' = Some (CArray (CArray [CObject members, output] # rest))
           \<and> map_of members ''value'' = Some sourceValue
           \<and> ((toBool sourceValue \<noteq> None \<and> functionType type value = Categorical
                \<and> composite convert_bool X type value
                     (\<lambda>type' base property stops. Ok (categorical_bool type' property stops))
                    = Ok result')
             \<or> (toBool sourceValue = None \<and> toNumber sourceValue \<noteq> None
                \<and> functionType type value = Interval
                \<and> composite convert_double X type value
                     (\<lambda>type' base property stops.
                        Ok (step type' (number (get (literal (VString property)))) stops))
                    = Ok result')
             \<or> (toBool sourceValue = None \<and> toNumber sourceValue \<noteq> None
                \<and> functionType type value = Exponential
                \<and> composite convert_double X type value
                     (\<lambda>type' base property stops.
                        interpolate type' (exponential base)
                          (number (get (literal (VString property)))) stops)
                    = Ok result')
             \<or> (toBool sourceValue = None \<and> toNumber sourceValue \<noteq> None
                \<and> functionType type value = Categorical
                \<and> composite (convert_int64 X) X type value
                     (\<lambda>type' base property stops.
                        Ok (categorical MatchInt64 type' property stops))
                    = Ok result')
             \<or> (toBool sourceValue = None \<and> toNumber sourceValue = None
                \<and> toString sourceValue \<noteq> None \<and> functionType type value = Categorical
                \<and> composite convert_string X type value
                     (\<lambda>type' base property stops.
                        Ok (categorical MatchString type' property stops))
                    = Ok result'))"
    by (rule composite_entry_selects)
next
  assume "isObject value
      \<and> objectMember value ''stops'' = Some (CArray (CArray [CObject members, output] # rest))
      \<and> map_of members ''value'' = Some sourceValue
      \<and> objectMember value ''property'' = Some propertyValue
      \<and> toString propertyValue = Some property
      \<and> convertBase value = Ok base
      \<and> ((toBool sourceValue \<noteq> None \<and> functionType type value = Categorical
            \<and> list_all2 (tripleParses convert_bool X type)
                 (CArray [CObject members, output] # rest) tsb)
         \<or> (toBool sourceValue = None \<and> toNumber sourceValue \<noteq> None
            \<and> (functionType type value = Interval \<or> functionType type value = Exponential)
            \<and> list_all2 (tripleParses convert_double X type)
                 (CArray [CObject members, output] # rest) tsd)
         \<or> (toBool sourceValue = None \<and> toNumber sourceValue \<noteq> None
            \<and> functionType type value = Categorical
            \<and> list_all2 (tripleParses (convert_int64 X) X type)
                 (CArray [CObject members, output] # rest) tsi)
         \<or> (toBool sourceValue = None \<and> toNumber sourceValue = None
            \<and> toString sourceValue \<noteq> None \<and> functionType type value = Categorical
            \<and> list_all2 (tripleParses convert_string X type)
                 (CArray [CObject members, output] # rest) tss))"
  then show "\<exists>result. convertCompositeFunctionToExpression X type value = Ok result"
    using composite_entry_converts
      [of "value" members "output" rest sourceValue propertyValue property base type X
          tsb tsd tsi tss]
    by blast
next
  show "composite_loop convert_double example_externals NumberType zoom_value_stops []
       = Ok [(0, [(0, Literal (VNumber 1)), (10, Literal (VNumber 2))]),
             (5, [(0, Literal (VNumber 3))])]"
    by (simp add: zoom_value_stops_def eval_defs)
next
  show "convertCompositeFunctionToExpression example_externals NumberType zoom_value_function
       = Ok (Interpolate NumberType LinearInterpolator Zoom
              [(0, Interpolate NumberType (ExponentialInterpolator 1)
                     (NumberAssertion (Get (Literal (VString ''p''))))
                     [(0, Literal (VNumber 1)), (10, Literal (VNumber 2))]),
               (5, Interpolate NumberType (ExponentialInterpolator 1)
                     (NumberAssertion (Get (Literal (VString ''p''))))
                     [(0, Literal (VNumber 3))])])"
    by (simp add: zoom_value_function_def zoom_value_stops_def composite_eval_defs eval_defs)
next
  show "convertCompositeFunctionToExpression example_externals StringType zoom_value_string_function
       = Ok (Step StringType Zoom
              [(0, Step StringType (NumberAssertion (Get (Literal (VString ''p''))))
                     [(0, Literal (VString ''a'')), (10, Literal (VString ''b''))]),
               (5, Step StringType (NumberAssertion (Get (Literal (VString ''p''))))
                     [(0, Literal (VString ''c''))])])"
    by (simp add: zoom_value_string_function_def composite_eval_defs eval_defs)
next
  show "convertCompositeFunctionToExpression example_externals NumberType three_zoom_function
       = Ok (Interpolate NumberType LinearInterpolator Zoom
              [(0, Interpolate NumberType (ExponentialInterpolator 1)
                     (NumberAssertion (Get (Literal (VString ''p''))))
                     [(0, Literal (VNumber 1))]),
               (5, Interpolate NumberType (ExponentialInterpolator 1)
                     (NumberAssertion (Get (Literal (VString ''p''))))
                     [(0, Literal (VNumber 2))]),
               (10, Interpolate NumberType (ExponentialInterpolator 1)
                     (NumberAssertion (Get (Literal (VString ''p''))))
                     [(0, Literal (VNumber 3))])])"
    by (simp add: three_zoom_function_def three_zoom_stops_def composite_eval_defs eval_defs)
qed

theorem composite_groups_by_zoom_witness:
  "composite convert_double example_externals NumberType zoom_value_function
     (\<lambda>type' base property stops.
        interpolate type' (exponential base) (number (get (literal (VString property)))) stops)
     = Ok zoom_value_result
   \<and> (\<exists>ss ts buckets stops base propertyValue property.
         objectMember zoom_value_function ''stops'' = Some (CArray ss)
         \<and> objectMember zoom_value_function ''property'' = Some propertyValue
         \<and> toString propertyValue = Some property
         \<and> convertBase zoom_value_function = Ok base
         \<and> list_all2 (tripleParses convert_double example_externals NumberType) ss ts
         \<and> composite_loop convert_double example_externals NumberType ss [] = Ok buckets
         \<and> sorted_wrt (<) (map fst buckets) \<and> fst ` set buckets = fst ` set ts
         \<and> (\<forall>z b. (z, b) \<in> set buckets \<longrightarrow>
              sorted_wrt (<) (map fst b)
              \<and> set b \<subseteq> snd ` {t \<in> set ts. fst t = z}
              \<and> (\<forall>k. map_of b k = first_seen (map snd (filter (\<lambda>t. fst t = z) ts)) k))
         \<and> list_all2 (\<lambda>e s. fst s = fst e
                \<and> interpolate NumberType (exponential base)
                     (number (get (literal (VString property)))) (snd e) = Ok (snd s))
              buckets stops
         \<and> zoom_value_result = Interpolate NumberType LinearInterpolator Zoom stops)
   \<and> convertCompositeFunctionToExpression example_externals NumberType zoom_value_function
       = Ok zoom_value_result
   \<and> (\<exists>members output rest sourceValue.
         objectMember zoom_value_function ''stops''
           = Some (CArray (CArray [CObject members, output] # rest))
         \<and> map_of members ''value'' = Some sourceValue
         \<and> toBool sourceValue = None \<and> toNumber sourceValue \<noteq> None
         \<and> functionType NumberType zoom_value_function = Exponential)
   \<and> objectMember three_zoom_function ''property'' = Some (CString ''p'')
   \<and> toString (CString ''p'' :: rat convertible) = Some ''p''
   \<and> convertBase three_zoom_function = Ok 1
   \<and> objectMember three_zoom_function ''stops'' = Some (CArray three_zoom_stops)
   \<and> list_all2 (tripleParses convert_double example_externals NumberType) three_zoom_stops
        [(10, 0, Literal (VNumber 3)), (0, 0, Literal (VNumber 1)), (5, 0, Literal (VNumber 2))]
   \<and> (\<forall>b. \<exists>i. interpolate NumberType (exponential 1)
                 (number (get (literal (VString ''p'')))) b
               = Ok (i :: (rat, string) expression))
   \<and> (\<exists>result. composite convert_double example_externals NumberType three_zoom_function
         (\<lambda>type' base property stops.
           interpolate type' (exponential base) (number (get (literal (VString property)))) stops) = Ok result)
   \<and> isObject three_zoom_function
   \<and> three_zoom_stops
       = CArray [CObject [(''zoom'', CNumber 10), (''value'', CNumber 0)], CNumber 3]
           # tl three_zoom_stops
   \<and> map_of [(''zoom'', CNumber 10), (''value'', CNumber 0 :: rat convertible)] ''value''
       = Some (CNumber 0)
   \<and> toBool (CNumber 0 :: rat convertible) = None
   \<and> toNumber (CNumber 0 :: rat convertible) \<noteq> None
   \<and> functionType NumberType three_zoom_function = Exponential
   \<and> (\<exists>result. convertCompositeFunctionToExpression example_externals NumberType
         three_zoom_function = Ok result)"
proof -
  let ?builder = "\<lambda>type' base property stops.
      interpolate type' (exponential base) (number (get (literal (VString property)))) stops
        :: (rat, string) expression result"
  let ?ts = "[(10, 0, Literal (VNumber 3)), (0, 0, Literal (VNumber 1)), (5, 0, Literal (VNumber 2))]
      :: (rat \<times> rat \<times> (rat, string) expression) list"
  have h: "composite convert_double example_externals NumberType zoom_value_function ?builder
      = Ok zoom_value_result"
    by (simp add: zoom_value_function_def zoom_value_stops_def zoom_value_result_def
        composite_eval_defs eval_defs)
  have h': "convertCompositeFunctionToExpression example_externals NumberType zoom_value_function
      = Ok zoom_value_result"
    by (simp add: zoom_value_function_def zoom_value_stops_def zoom_value_result_def
        composite_eval_defs eval_defs)
  have shape: "functionType NumberType zoom_value_function = Exponential"
    by (simp add: zoom_value_function_def functionType_def)
  note grouped = composite_groups_by_zoom
    [of convert_double example_externals NumberType zoom_value_function ?builder
        zoom_value_result, THEN conjunct1]
  note selected = composite_groups_by_zoom
    [of convert_double example_externals NumberType zoom_value_function ?builder,
     where result' = zoom_value_result, THEN conjunct2, THEN conjunct2, THEN conjunct1]
  from grouped h have c: "\<exists>ss ts buckets stops base propertyValue property.
         objectMember zoom_value_function ''stops'' = Some (CArray ss)
         \<and> objectMember zoom_value_function ''property'' = Some propertyValue
         \<and> toString propertyValue = Some property
         \<and> convertBase zoom_value_function = Ok base
         \<and> list_all2 (tripleParses convert_double example_externals NumberType) ss ts
         \<and> composite_loop convert_double example_externals NumberType ss [] = Ok buckets
         \<and> sorted_wrt (<) (map fst buckets) \<and> fst ` set buckets = fst ` set ts
         \<and> (\<forall>z b. (z, b) \<in> set buckets \<longrightarrow>
              sorted_wrt (<) (map fst b)
              \<and> set b \<subseteq> snd ` {t \<in> set ts. fst t = z}
              \<and> (\<forall>k. map_of b k = first_seen (map snd (filter (\<lambda>t. fst t = z) ts)) k))
         \<and> list_all2 (\<lambda>e s. fst s = fst e
                \<and> interpolate NumberType (exponential base)
                     (number (get (literal (VString property)))) (snd e) = Ok (snd s))
              buckets stops
         \<and> zoom_value_result = Interpolate NumberType LinearInterpolator Zoom stops"
    by simp
  from selected h' shape have c': "\<exists>members output rest sourceValue.
         objectMember zoom_value_function ''stops''
           = Some (CArray (CArray [CObject members, output] # rest))
         \<and> map_of members ''value'' = Some sourceValue
         \<and> toBool sourceValue = None \<and> toNumber sourceValue \<noteq> None
         \<and> functionType NumberType zoom_value_function = Exponential"
    by auto
  have b1: "objectMember three_zoom_function ''property'' = Some (CString ''p'')"
    by (simp add: three_zoom_function_def)
  have b2: "toString (CString ''p'' :: rat convertible) = Some ''p''"
    by simp
  have b3: "convertBase three_zoom_function = Ok 1"
    by (simp add: three_zoom_function_def convertBase_def)
  have b4: "objectMember three_zoom_function ''stops'' = Some (CArray three_zoom_stops)"
    by (simp add: three_zoom_function_def)
  have b5: "list_all2 (tripleParses convert_double example_externals NumberType) three_zoom_stops
        [(10, 0, Literal (VNumber 3)), (0, 0, Literal (VNumber 1)), (5, 0, Literal (VNumber 2))]"
    by (simp add: three_zoom_stops_def tripleParses_def eval_defs)
  have b6: "(\<forall>b. \<exists>i. interpolate NumberType (exponential 1)
                 (number (get (literal (VString ''p'')))) b
               = Ok (i :: (rat, string) expression))"
    by (simp add: interpolate_def createInterpolate_def)
  note converted = composite_groups_by_zoom
    [of convert_double example_externals NumberType three_zoom_function ?builder,
     where propertyValue = "CString ''p''" and property = "''p''" and base = 1
       and ss = three_zoom_stops and ts = ?ts,
     THEN conjunct2, THEN conjunct1]
  from converted b1 b2 b3 b4 b5 b6 have cb: "(\<exists>result. composite convert_double example_externals NumberType three_zoom_function
         (\<lambda>type' base property stops.
           interpolate type' (exponential base) (number (get (literal (VString property)))) stops) = Ok result)"
    by blast
  have d1: "isObject three_zoom_function"
    by (simp add: three_zoom_function_def)
  have d2: "three_zoom_stops
       = CArray [CObject [(''zoom'', CNumber 10), (''value'', CNumber 0)], CNumber 3]
           # tl three_zoom_stops"
    by (simp add: three_zoom_stops_def)
  have d3: "map_of [(''zoom'', CNumber 10), (''value'', CNumber 0 :: rat convertible)] ''value''
       = Some (CNumber 0)"
    by simp
  have d4: "toBool (CNumber 0 :: rat convertible) = None"
    by simp
  have d5: "toNumber (CNumber 0 :: rat convertible) \<noteq> None"
    by simp
  have d6: "functionType NumberType three_zoom_function = Exponential"
    by (simp add: three_zoom_function_def functionType_def)
  have b4': "objectMember three_zoom_function ''stops''
      = Some (CArray (CArray [CObject [(''zoom'', CNumber 10), (''value'', CNumber 0)], CNumber 3]
                       # tl three_zoom_stops))"
    using b4 d2 by simp
  have b5': "list_all2 (tripleParses convert_double example_externals NumberType)
      (CArray [CObject [(''zoom'', CNumber 10), (''value'', CNumber 0)], CNumber 3]
         # tl three_zoom_stops) ?ts"
    using b5 d2 by simp
  note entry = composite_groups_by_zoom
    [of convert_double example_externals NumberType three_zoom_function ?builder,
     where members = "[(''zoom'', CNumber 10), (''value'', CNumber 0)]"
       and rest = "tl three_zoom_stops"
       and sourceValue = "CNumber 0" and propertyValue = "CString ''p''"
       and property = "''p''" and base = 1 and tsd = ?ts and tsb = "[]" and tsi = "[]"
       and tss = "[]",
     THEN conjunct2, THEN conjunct2, THEN conjunct2, THEN conjunct1]
  from entry d1 b4' d3 b1 b2 b3 d4 d5 d6 b5' have cd: "(\<exists>result. convertCompositeFunctionToExpression example_externals NumberType
         three_zoom_function = Ok result)"
    by blast
  from h c h' c' b1 b2 b3 b4 b5 b6 cb d1 d2 d3 d4 d5 d6 cd show ?thesis
    by (intro conjI)
qed

end
